theory Spec2Isabelle
  imports Main "HOL-Library.Word"
begin

unbundle bit_operations_syntax

section \<open>Common types\<close>

type_synonym byte = "8 word"
type_synonym uint16 = "16 word"
type_synonym uint32 = "32 word"

section \<open>Go runtime and standard library, as far as the modelled code uses them\<close>

text \<open>
  A run-time panic: an index or slice bound out of range (the index and the length), or an
  explicit \<open>panic(message)\<close>.
\<close>

datatype go_panic =
    IndexOutOfRange nat nat
  | PanicMessage string

text \<open>
  An error value made by \<open>fmt.Errorf\<close>: the format string and its integer arguments, or
  its one string argument; a \<open>%w\<close> verb wraps another error.
\<close>

datatype go_error =
    Errorf string "int list"
  | Errorf_string string string
  | Wrapf string go_error

text \<open>
  The outcome of a call of a function with result type \<open>(T, error)\<close>: it returns a value, it
  returns an error, or it panics.
\<close>

datatype 'a outcome =
    Return 'a
  | Error go_error
  | Panic go_panic

text \<open>
  \<open>binary.BigEndian.Uint32(b)\<close> and \<open>binary.BigEndian.PutUint32(b, v)\<close> of package
  encoding/binary.  Both start with the bounds check \<open>_ = b[3]\<close>, which panics on a slice of
  fewer than four bytes.  \<open>PutUint32\<close> writes through the slice; the model returns the
  contents of the slice after the call.
\<close>

fun BigEndian_Uint32 :: "byte list \<Rightarrow> go_panic + uint32" where
  "BigEndian_Uint32 (b0 # b1 # b2 # b3 # rest) =
     Inr (ucast b3 OR push_bit 8 (ucast b2) OR push_bit 16 (ucast b1) OR push_bit 24 (ucast b0))"
| "BigEndian_Uint32 b = Inl (IndexOutOfRange 3 (length b))"

fun BigEndian_PutUint32 :: "byte list \<Rightarrow> uint32 \<Rightarrow> go_panic + byte list" where
  "BigEndian_PutUint32 (b0 # b1 # b2 # b3 # rest) v =
     Inr (ucast (drop_bit 24 v) # ucast (drop_bit 16 v) # ucast (drop_bit 8 v) # ucast v # rest)"
| "BigEndian_PutUint32 b v = Inl (IndexOutOfRange 3 (length b))"

section \<open>CRC-CCITT (encoding/crc.go)\<close>

record CRCCCITT =
  crcTable :: "uint16 list"
  startingValue :: uint16
  crcCCITTConstant :: uint16
  initialized :: bool

text \<open>
  One round of the inner loop of \<open>initCRCTable\<close>, on the pair \<open>(crc, cVal)\<close>, and the
  table entry for index \<open>i\<close>: the value of \<open>crc\<close> after eight rounds.
\<close>

definition crc_table_round :: "uint16 \<Rightarrow> uint16 \<times> uint16 \<Rightarrow> uint16 \<times> uint16" where
  "crc_table_round constant p =
     (case p of (crc, cVal) \<Rightarrow>
        (if (crc XOR cVal) AND 0x8000 \<noteq> 0 then push_bit 1 crc XOR constant
         else push_bit 1 crc,
         push_bit 1 cVal))"

definition crc_table_value :: "uint16 \<Rightarrow> nat \<Rightarrow> uint16" where
  "crc_table_value constant i =
     fst ((crc_table_round constant ^^ 8) (0, push_bit 8 (of_nat i)))"

definition initCRCTable :: "CRCCCITT \<Rightarrow> CRCCCITT" where
  "initCRCTable c =
     (if initialized c then c
      else c\<lparr>crcTable := map (crc_table_value (crcCCITTConstant c)) [0..<256],
              initialized := True\<rparr>)"

definition NewCRCCCITT :: CRCCCITT where
  "NewCRCCCITT =
     initCRCTable \<lparr>crcTable = replicate 256 0, startingValue = 0xFFFF,
                   crcCCITTConstant = 0x1021, initialized = False\<rparr>"

text \<open>The body of the loop of \<open>calculate\<close>.\<close>

definition calculate_step :: "uint16 list \<Rightarrow> uint16 \<Rightarrow> byte \<Rightarrow> uint16" where
  "calculate_step table crcValue char =
     (let tmp = (drop_bit 8 crcValue AND 0xFF) XOR ucast char;
          crcShifted = push_bit 8 crcValue AND 0xFF00
      in crcShifted XOR table ! unat tmp)"

definition calculate :: "CRCCCITT \<Rightarrow> byte list \<Rightarrow> uint16" where
  "calculate c inputData = foldl (calculate_step (crcTable c)) (startingValue c) inputData"

text \<open>
  \<open>reverseByte\<close>: the loop runs \<open>i\<close> from 0 to 7 on the pair \<open>(reversedByte, andValue)\<close>,
  all arithmetic being on bytes.
\<close>

definition reverseByte_round :: "byte \<Rightarrow> nat \<Rightarrow> byte \<times> byte \<Rightarrow> byte \<times> byte" where
  "reverseByte_round byteToReverse i p =
     (case p of (reversedByte, andValue) \<Rightarrow>
        (reversedByte + drop_bit i (byteToReverse AND andValue) * push_bit (7 - i) 1,
         push_bit 1 andValue))"

definition reverseByte :: "byte \<Rightarrow> byte" where
  "reverseByte byteToReverse = fst (fold (reverseByte_round byteToReverse) [0..<8] (0, 1))"

definition reverseByteMessage :: "byte list \<Rightarrow> byte list" where
  "reverseByteMessage msg = map reverseByte msg"

definition CalculateFor :: "CRCCCITT \<Rightarrow> byte list \<Rightarrow> bool \<Rightarrow> byte list" where
  "CalculateFor c inputData lsbFirst =
     (let reversedData = reverseByteMessage inputData;
          reversedCRC = calculate c reversedData;
          lsbRev = reversedCRC AND 0x00FF;
          lsbByte = reverseByte (ucast lsbRev) XOR 0xFF;
          msbRev = drop_bit 8 (reversedCRC AND 0xFF00);
          msbByte = reverseByte (ucast msbRev) XOR 0xFF
      in if lsbFirst then [lsbByte, msbByte] else [msbByte, lsbByte])"

text \<open>
  The comparison of a received checksum with the calculated one, as the frame parsers make
  it at each call site: the lengths must agree, and then every byte.
\<close>

definition checksum_matches :: "byte list \<Rightarrow> byte list \<Rightarrow> bool" where
  "checksum_matches received calculated \<longleftrightarrow>
     length received = length calculated \<and>
     list_all (\<lambda>i. received ! i = calculated ! i) [0..<length received]"

text \<open>Flipping bit \<open>k\<close> of the byte at index \<open>i\<close> of a byte sequence.\<close>

definition flip_bit_at :: "byte list \<Rightarrow> nat \<Rightarrow> nat \<Rightarrow> byte list" where
  "flip_bit_at b i k = b[i := b ! i XOR push_bit k 1]"

section \<open>Auxiliary notions for the CRC proofs\<close>

text \<open>The component-wise exclusive or of two \<open>(crc, cVal)\<close> pairs.\<close>

definition xor_pair :: "uint16 \<times> uint16 \<Rightarrow> uint16 \<times> uint16 \<Rightarrow> uint16 \<times> uint16" where
  "xor_pair p q = (fst p XOR fst q, snd p XOR snd q)"

text \<open>The constant, or zero, that a table round folds in: it depends on bit 15 only.\<close>

definition top_mask :: "uint16 \<Rightarrow> uint16 \<Rightarrow> uint16" where
  "top_mask k x = (if bit x 15 then k else 0)"

text \<open>The table entry for an index given as a 16-bit word.\<close>

definition table_of :: "uint16 \<Rightarrow> uint16" where
  "table_of w = fst ((crc_table_round 0x1021 ^^ 8) (0, push_bit 8 w))"

text \<open>The word whose low eight bits are the given ones, the most significant first.\<close>

definition of_bools :: "bool \<Rightarrow> bool \<Rightarrow> bool \<Rightarrow> bool \<Rightarrow> bool \<Rightarrow> bool \<Rightarrow> bool \<Rightarrow> bool \<Rightarrow> 'a::len word" where
  "of_bools b7 b6 b5 b4 b3 b2 b1 b0 =
     (if b7 then 2 ^ 7 else 0) OR (if b6 then 2 ^ 6 else 0) OR (if b5 then 2 ^ 5 else 0) OR
     (if b4 then 2 ^ 4 else 0) OR (if b3 then 2 ^ 3 else 0) OR (if b2 then 2 ^ 2 else 0) OR
     (if b1 then 2 ^ 1 else 0) OR (if b0 then 2 ^ 0 else 0)"

section \<open>HDLC addresses and control fields (hdlc/fields.go)\<close>

datatype AddressType = AddressTypeClient | AddressTypeServer

text \<open>\<open>PhysicalAddress\<close> is a \<open>*int\<close>; nil is \<open>None\<close>.\<close>

record HdlcAddress =
  LogicalAddress :: int
  PhysicalAddress :: "int option"
  AddressType :: AddressType
  ExtendedAddressing :: bool

text \<open>\<open>splitAddress\<close> returns the pair \<open>(higher, lower)\<close>; \<open>byte(x)\<close> keeps the low eight bits.\<close>

definition splitAddress :: "int \<Rightarrow> byte \<times> byte" where
  "splitAddress address =
     (if address > 0b01111111 then
        (word_of_int (drop_bit 6 (address AND 0b0011111110000000)),
         word_of_int (push_bit 1 (address AND 0b0000000001111111)))
      else (0, word_of_int (push_bit 1 address)))"

definition HdlcAddress_ToBytes :: "HdlcAddress \<Rightarrow> byte list" where
  "HdlcAddress_ToBytes a =
     (let out =
        (if AddressType a = AddressTypeClient then
           [word_of_int (push_bit 1 (LogicalAddress a) OR 0b00000001)]
         else
           (case splitAddress (LogicalAddress a) of (logicalHigher, logicalLower) \<Rightarrow>
              (case PhysicalAddress a of
                 Some physical \<Rightarrow>
                   (case splitAddress physical of (physicalHigher, physicalLower) \<Rightarrow>
                      [logicalHigher, logicalLower, physicalHigher, physicalLower OR 0b00000001])
               | None \<Rightarrow> [logicalHigher, logicalLower OR 0b00000001])))
      in if ExtendedAddressing a then out else filter (\<lambda>addr. addr \<noteq> 0) out)"

definition HdlcAddress_Length :: "HdlcAddress \<Rightarrow> int" where
  "HdlcAddress_Length a = int (length (HdlcAddress_ToBytes a))"

text \<open>
  The implementations of the interface \<open>HdlcControlField\<close> that the frames use, with their
  fields.
\<close>

datatype HdlcControlField =
    SnrmControlField
  | UaControlField
  | DisconnectControlField
  | ReceiveReadyControlField byte
  | InformationControlField byte byte bool

fun IsFinal :: "HdlcControlField \<Rightarrow> bool" where
  "IsFinal SnrmControlField = True"
| "IsFinal UaControlField = True"
| "IsFinal DisconnectControlField = True"
| "IsFinal (ReceiveReadyControlField receiveSequenceNumber) = True"
| "IsFinal (InformationControlField sendSequenceNumber receiveSequenceNumber final) = final"

definition or_final :: "HdlcControlField \<Rightarrow> byte \<Rightarrow> byte" where
  "or_final cf out = (if IsFinal cf then out OR 0b00010000 else out)"

fun HdlcControlField_ToBytes :: "HdlcControlField \<Rightarrow> byte list" where
  "HdlcControlField_ToBytes SnrmControlField = [or_final SnrmControlField 0b10000011]"
| "HdlcControlField_ToBytes UaControlField = [or_final UaControlField 0b01100011]"
| "HdlcControlField_ToBytes DisconnectControlField =
     [or_final DisconnectControlField 0b01000011]"
| "HdlcControlField_ToBytes (ReceiveReadyControlField receiveSequenceNumber) =
     [or_final (ReceiveReadyControlField receiveSequenceNumber)
        (0b00000001 + push_bit 5 receiveSequenceNumber)]"
| "HdlcControlField_ToBytes (InformationControlField sendSequenceNumber receiveSequenceNumber final) =
     [or_final (InformationControlField sendSequenceNumber receiveSequenceNumber final)
        (0b00000000 + push_bit 1 sendSequenceNumber + push_bit 5 receiveSequenceNumber)]"

text \<open>
  The constructors that check the sequence numbers; the frames drop the error and use the
  pointer, which is nil (\<open>None\<close>) when the check fails.
\<close>

definition NewReceiveReadyControlField :: "byte \<Rightarrow> HdlcControlField option" where
  "NewReceiveReadyControlField receiveSequenceNumber =
     (if receiveSequenceNumber > 7 then None
      else Some (ReceiveReadyControlField receiveSequenceNumber))"

definition NewInformationControlField :: "byte \<Rightarrow> byte \<Rightarrow> bool \<Rightarrow> HdlcControlField option" where
  "NewInformationControlField sendSequenceNumber receiveSequenceNumber final =
     (if sendSequenceNumber > 7 then None
      else if receiveSequenceNumber > 7 then None
      else Some (InformationControlField sendSequenceNumber receiveSequenceNumber final))"

text \<open>
  \<open>DlmsHdlcFrameFormatField\<close>; its fields \<open>Length\<close> and \<open>Segmented\<close> carry the prefix
  \<open>Format\<close> here, \<open>Segmented\<close> being a field of \<open>BaseHdlcFrame\<close> too.
\<close>

record DlmsHdlcFrameFormatField =
  FormatLength :: uint16
  FormatSegmented :: bool

definition DlmsHdlcFrameFormatField_ToBytes :: "DlmsHdlcFrameFormatField \<Rightarrow> byte list" where
  "DlmsHdlcFrameFormatField_ToBytes d =
     (let total = 0b1010000000000000 OR FormatLength d;
          total = (if FormatSegmented d then total OR 0b0000100000000000 else total)
      in [ucast (drop_bit 8 total), ucast (total AND 0xFF)])"

section \<open>HDLC frames (package hdlc)\<close>

definition HDLCFlag :: byte where
  "HDLCFlag = 0x7E"

definition LLCCommandHeader :: "byte list" where
  "LLCCommandHeader = [0xE6, 0xE6, 0x00]"

definition FixedLengthBytes :: int where
  "FixedLengthBytes = 7"

text \<open>The two package-level calculators \<open>HCS\<close> and \<open>FCS\<close>.\<close>

definition HCS :: CRCCCITT where
  "HCS = NewCRCCCITT"

definition FCS :: CRCCCITT where
  "FCS = NewCRCCCITT"

text \<open>
  \<open>BaseHdlcFrame\<close>.  The two addresses are pointers in the source; a frame with a nil
  address is not modelled.
\<close>

record BaseHdlcFrame =
  DestinationAddress :: HdlcAddress
  SourceAddress :: HdlcAddress
  Payload :: "byte list"
  Segmented :: bool
  Final :: bool

text \<open>
  The methods with receiver \<open>*BaseHdlcFrame\<close>.  Go binds a method call by the static type
  of the receiver: inside these methods \<open>b\<close> is a \<open>*BaseHdlcFrame\<close>, so \<open>b.FrameLength()\<close>,
  \<open>b.Information()\<close>, \<open>b.HCS()\<close> and \<open>b.GetControlField()\<close> are the methods of
  \<open>BaseHdlcFrame\<close> below, whatever frame type embeds the value.
\<close>

definition BaseHdlcFrame_Information :: "BaseHdlcFrame \<Rightarrow> byte list" where
  "BaseHdlcFrame_Information b = Payload b"

definition BaseHdlcFrame_FrameLength :: "BaseHdlcFrame \<Rightarrow> int" where
  "BaseHdlcFrame_FrameLength b =
     FixedLengthBytes + HdlcAddress_Length (DestinationAddress b) +
     HdlcAddress_Length (SourceAddress b) + int (length (BaseHdlcFrame_Information b))"

definition BaseHdlcFrame_GetControlField :: "BaseHdlcFrame \<Rightarrow> go_panic + HdlcControlField" where
  "BaseHdlcFrame_GetControlField b =
     Inl (PanicMessage ''GetControlField must be implemented by specific frame type'')"

definition BaseHdlcFrame_HeaderContent :: "BaseHdlcFrame \<Rightarrow> go_panic + byte list" where
  "BaseHdlcFrame_HeaderContent b =
     (let formatField = \<lparr>FormatLength = word_of_int (BaseHdlcFrame_FrameLength b),
                          FormatSegmented = Segmented b\<rparr>;
          formatBytes = DlmsHdlcFrameFormatField_ToBytes formatField
      in
        case BaseHdlcFrame_GetControlField b of
          Inl p \<Rightarrow> Inl p
        | Inr controlField \<Rightarrow>
            Inr (formatBytes @ HdlcAddress_ToBytes (DestinationAddress b) @
                 HdlcAddress_ToBytes (SourceAddress b) @ HdlcControlField_ToBytes controlField))"

definition BaseHdlcFrame_HCS :: "BaseHdlcFrame \<Rightarrow> go_panic + byte list" where
  "BaseHdlcFrame_HCS b =
     (case BaseHdlcFrame_HeaderContent b of
        Inl p \<Rightarrow> Inl p
      | Inr headerContent \<Rightarrow>
          if length headerContent = 0 then Inr []
          else Inr (CalculateFor HCS headerContent False))"

definition BaseHdlcFrame_FrameContent :: "BaseHdlcFrame \<Rightarrow> go_panic + byte list" where
  "BaseHdlcFrame_FrameContent b =
     (case BaseHdlcFrame_HeaderContent b of
        Inl p \<Rightarrow> Inl p
      | Inr headerContent \<Rightarrow>
          (case BaseHdlcFrame_HCS b of
             Inl p \<Rightarrow> Inl p
           | Inr hcs \<Rightarrow> Inr (headerContent @ hcs @ BaseHdlcFrame_Information b)))"

definition BaseHdlcFrame_FCS :: "BaseHdlcFrame \<Rightarrow> go_panic + byte list" where
  "BaseHdlcFrame_FCS b =
     (case BaseHdlcFrame_FrameContent b of
        Inl p \<Rightarrow> Inl p
      | Inr frameContent \<Rightarrow> Inr (CalculateFor FCS frameContent False))"

definition BaseHdlcFrame_ToBytes :: "BaseHdlcFrame \<Rightarrow> go_panic + byte list" where
  "BaseHdlcFrame_ToBytes b =
     (case BaseHdlcFrame_FrameContent b of
        Inl p \<Rightarrow> Inl p
      | Inr frameContent \<Rightarrow>
          (case BaseHdlcFrame_FCS b of
             Inl p \<Rightarrow> Inl p
           | Inr fcs \<Rightarrow> Inr ([HDLCFlag] @ frameContent @ fcs @ [HDLCFlag])))"

text \<open>
  The five frame types.  Each embeds a \<open>*BaseHdlcFrame\<close>; the RR frame adds its receive
  sequence number, the I frame its send and receive sequence numbers.
\<close>

datatype HdlcFrame =
    SetNormalResponseModeFrame BaseHdlcFrame
  | UnNumberedAcknowledgmentFrame BaseHdlcFrame
  | ReceiveReadyFrame BaseHdlcFrame byte
  | InformationFrame BaseHdlcFrame byte byte
  | DisconnectFrame BaseHdlcFrame

fun embedded :: "HdlcFrame \<Rightarrow> BaseHdlcFrame" where
  "embedded (SetNormalResponseModeFrame b) = b"
| "embedded (UnNumberedAcknowledgmentFrame b) = b"
| "embedded (ReceiveReadyFrame b receiveSequenceNumber) = b"
| "embedded (InformationFrame b sendSequenceNumber receiveSequenceNumber) = b"
| "embedded (DisconnectFrame b) = b"

text \<open>The constructors; all but \<open>NewInformationFrame\<close> set \<open>Final\<close> and leave the rest zero.\<close>

definition NewSetNormalResponseModeFrame :: "HdlcAddress \<Rightarrow> HdlcAddress \<Rightarrow> HdlcFrame" where
  "NewSetNormalResponseModeFrame destinationAddress sourceAddress =
     SetNormalResponseModeFrame
       \<lparr>DestinationAddress = destinationAddress, SourceAddress = sourceAddress, Payload = [],
        Segmented = False, Final = True\<rparr>"

definition NewUnNumberedAcknowledgmentFrame ::
  "HdlcAddress \<Rightarrow> HdlcAddress \<Rightarrow> byte list \<Rightarrow> HdlcFrame" where
  "NewUnNumberedAcknowledgmentFrame destinationAddress sourceAddress payload =
     UnNumberedAcknowledgmentFrame
       \<lparr>DestinationAddress = destinationAddress, SourceAddress = sourceAddress,
        Payload = payload, Segmented = False, Final = True\<rparr>"

definition NewReceiveReadyFrame :: "HdlcAddress \<Rightarrow> HdlcAddress \<Rightarrow> byte \<Rightarrow> HdlcFrame" where
  "NewReceiveReadyFrame destinationAddress sourceAddress receiveSequenceNumber =
     ReceiveReadyFrame
       \<lparr>DestinationAddress = destinationAddress, SourceAddress = sourceAddress, Payload = [],
        Segmented = False, Final = True\<rparr>
       receiveSequenceNumber"

definition NewInformationFrame ::
  "HdlcAddress \<Rightarrow> HdlcAddress \<Rightarrow> byte list \<Rightarrow> byte \<Rightarrow> byte \<Rightarrow> bool \<Rightarrow> bool \<Rightarrow> HdlcFrame" where
  "NewInformationFrame destinationAddress sourceAddress payload sendSequenceNumber
       receiveSequenceNumber segmented final =
     InformationFrame
       \<lparr>DestinationAddress = destinationAddress, SourceAddress = sourceAddress,
        Payload = payload, Segmented = segmented, Final = final\<rparr>
       sendSequenceNumber receiveSequenceNumber"

definition NewDisconnectFrame :: "HdlcAddress \<Rightarrow> HdlcAddress \<Rightarrow> HdlcFrame" where
  "NewDisconnectFrame destinationAddress sourceAddress =
     DisconnectFrame
       \<lparr>DestinationAddress = destinationAddress, SourceAddress = sourceAddress, Payload = [],
        Segmented = False, Final = True\<rparr>"

text \<open>
  \<open>GetControlField\<close> as each frame type defines it.  These are the methods that a call on
  the frame itself selects; \<open>None\<close> is the nil pointer that the RR and I frames get from a
  constructor that rejected the sequence numbers.
\<close>

fun HdlcFrame_GetControlField :: "HdlcFrame \<Rightarrow> HdlcControlField option" where
  "HdlcFrame_GetControlField (SetNormalResponseModeFrame b) = Some SnrmControlField"
| "HdlcFrame_GetControlField (UnNumberedAcknowledgmentFrame b) = Some UaControlField"
| "HdlcFrame_GetControlField (ReceiveReadyFrame b receiveSequenceNumber) =
     NewReceiveReadyControlField receiveSequenceNumber"
| "HdlcFrame_GetControlField (InformationFrame b sendSequenceNumber receiveSequenceNumber) =
     NewInformationControlField sendSequenceNumber receiveSequenceNumber (Final b)"
| "HdlcFrame_GetControlField (DisconnectFrame b) = Some DisconnectControlField"

text \<open>
  \<open>ToBytes\<close> on a frame: no frame type defines it, so the call is the promoted method of
  the embedded \<open>BaseHdlcFrame\<close>, applied to the embedded value.
\<close>

definition HdlcFrame_ToBytes :: "HdlcFrame \<Rightarrow> go_panic + byte list" where
  "HdlcFrame_ToBytes f = BaseHdlcFrame_ToBytes (embedded f)"

section \<open>HDLC link state machine (hdlc/state.go)\<close>

text \<open>The constants of type \<open>HdlcState\<close>, in declaration order.\<close>

datatype HdlcState =
    HdlcStateNotConnected
  | HdlcStateIdle
  | HdlcStateAwaitingResponse
  | HdlcStateAwaitingConnection
  | HdlcStateAwaitingDisconnect
  | HdlcStateClosed
  | HdlcStateNeedData

text \<open>
  \<open>FrameType\<close> is a Go string type.  \<open>getFrameType\<close> returns one of the five named
  constants, or the empty string for a value of any other dynamic type.
\<close>

datatype FrameType =
    FrameTypeSetNormalResponseMode
  | FrameTypeUnNumberedAcknowledgment
  | FrameTypeInformation
  | FrameTypeReceiveReady
  | FrameTypeDisconnect
  | FrameTypeEmpty

text \<open>
  The argument of \<open>ProcessFrame\<close> has the type \<open>interface{}\<close>: it is a pointer to a frame
  of one of the five frame types, or a value of some other type.
\<close>

datatype frame_argument =
    PointerToFrame HdlcFrame
  | OtherValue

fun getFrameType :: "frame_argument \<Rightarrow> FrameType" where
  "getFrameType (PointerToFrame (SetNormalResponseModeFrame b)) = FrameTypeSetNormalResponseMode"
| "getFrameType (PointerToFrame (UnNumberedAcknowledgmentFrame b)) =
     FrameTypeUnNumberedAcknowledgment"
| "getFrameType (PointerToFrame (InformationFrame b sendSequenceNumber receiveSequenceNumber)) =
     FrameTypeInformation"
| "getFrameType (PointerToFrame (ReceiveReadyFrame b receiveSequenceNumber)) =
     FrameTypeReceiveReady"
| "getFrameType (PointerToFrame (DisconnectFrame b)) = FrameTypeDisconnect"
| "getFrameType OtherValue = FrameTypeEmpty"

datatype hdlc_error = LocalProtocolError FrameType HdlcState

record HdlcConnectionState =
  CurrentState :: HdlcState

definition NewHdlcConnectionState :: HdlcConnectionState where
  "NewHdlcConnectionState = \<lparr>CurrentState = HdlcStateNotConnected\<rparr>"

text \<open>
  \<open>hdlcStateTransitions\<close>: a map from states to maps from frame types to states.  A state
  without an entry yields the nil inner map, in which every lookup misses.
\<close>

definition hdlcStateTransitions :: "HdlcState \<Rightarrow> (FrameType \<rightharpoonup> HdlcState)" where
  "hdlcStateTransitions s =
     (case s of
        HdlcStateNotConnected \<Rightarrow>
          map_of [(FrameTypeSetNormalResponseMode, HdlcStateAwaitingConnection)]
      | HdlcStateAwaitingConnection \<Rightarrow>
          map_of [(FrameTypeUnNumberedAcknowledgment, HdlcStateIdle)]
      | HdlcStateIdle \<Rightarrow>
          map_of [(FrameTypeInformation, HdlcStateAwaitingResponse),
                  (FrameTypeDisconnect, HdlcStateAwaitingDisconnect),
                  (FrameTypeReceiveReady, HdlcStateAwaitingResponse)]
      | HdlcStateAwaitingResponse \<Rightarrow>
          map_of [(FrameTypeInformation, HdlcStateIdle),
                  (FrameTypeReceiveReady, HdlcStateIdle)]
      | HdlcStateAwaitingDisconnect \<Rightarrow>
          map_of [(FrameTypeUnNumberedAcknowledgment, HdlcStateNotConnected)]
      | _ \<Rightarrow> Map.empty)"

text \<open>
  \<open>ProcessFrame\<close> returns the error (if any) together with the receiver after the call.
\<close>

definition ProcessFrame ::
  "HdlcConnectionState \<Rightarrow> frame_argument \<Rightarrow> hdlc_error option \<times> HdlcConnectionState" where
  "ProcessFrame h frame =
     (let frameType = getFrameType frame in
        case hdlcStateTransitions (CurrentState h) frameType of
          None \<Rightarrow> (Some (LocalProtocolError frameType (CurrentState h)), h)
        | Some newState \<Rightarrow> (None, h\<lparr>CurrentState := newState\<rparr>))"

definition IsSendState :: "HdlcConnectionState \<Rightarrow> bool" where
  "IsSendState h \<longleftrightarrow>
     CurrentState h = HdlcStateNotConnected \<or> CurrentState h = HdlcStateIdle"

definition IsReceiveState :: "HdlcConnectionState \<Rightarrow> bool" where
  "IsReceiveState h \<longleftrightarrow>
     CurrentState h = HdlcStateAwaitingConnection \<or>
     CurrentState h = HdlcStateAwaitingResponse \<or>
     CurrentState h = HdlcStateAwaitingDisconnect"

text \<open>
  The arcs of the link state machine as the specification draws them (section 4.5), by the
  state and the kind of frame: the target of an arc, and \<open>None\<close> where the specification
  has no arc.
\<close>

fun spec_link_target :: "HdlcState \<Rightarrow> HdlcFrame \<Rightarrow> HdlcState option" where
  "spec_link_target HdlcStateNotConnected (SetNormalResponseModeFrame b) =
     Some HdlcStateAwaitingConnection"
| "spec_link_target HdlcStateAwaitingConnection (UnNumberedAcknowledgmentFrame b) =
     Some HdlcStateIdle"
| "spec_link_target HdlcStateIdle (InformationFrame b sendSequenceNumber receiveSequenceNumber) =
     Some HdlcStateAwaitingResponse"
| "spec_link_target HdlcStateIdle (ReceiveReadyFrame b receiveSequenceNumber) =
     Some HdlcStateAwaitingResponse"
| "spec_link_target HdlcStateIdle (DisconnectFrame b) = Some HdlcStateAwaitingDisconnect"
| "spec_link_target HdlcStateAwaitingResponse
     (InformationFrame b sendSequenceNumber receiveSequenceNumber) = Some HdlcStateIdle"
| "spec_link_target HdlcStateAwaitingResponse (ReceiveReadyFrame b receiveSequenceNumber) =
     Some HdlcStateIdle"
| "spec_link_target HdlcStateAwaitingDisconnect (UnNumberedAcknowledgmentFrame b) =
     Some HdlcStateNotConnected"
| "spec_link_target s f = None"

text \<open>
  The addresses of scenario S1 of the specification: the server with logical address 1 and
  the client with address 16.
\<close>

definition scenario_server :: HdlcAddress where
  "scenario_server =
     \<lparr>LogicalAddress = 1, PhysicalAddress = None, AddressType = AddressTypeServer,
      ExtendedAddressing = False\<rparr>"

definition scenario_client :: HdlcAddress where
  "scenario_client =
     \<lparr>LogicalAddress = 16, PhysicalAddress = None, AddressType = AddressTypeClient,
      ExtendedAddressing = False\<rparr>"

section \<open>InvokeIdAndPriority and GetResponseWithDataBlock (package xdlms)\<close>

text \<open>
  \<open>BaseXDlmsApdu\<close> is embedded in every APDU struct; the embedding is a record extension.
\<close>

record BaseXDlmsApdu =
  Tag :: byte

record InvokeIdAndPriority =
  InvokeID :: byte
  Confirmed :: bool
  HighPriority :: bool

definition NewInvokeIdAndPriority :: "byte \<Rightarrow> bool \<Rightarrow> bool \<Rightarrow> InvokeIdAndPriority outcome" where
  "NewInvokeIdAndPriority invokeID confirmed highPriority =
     (if invokeID > 15 then Error (Errorf ''invoke_id must be between 0-15, got %d'' [uint invokeID])
      else Return \<lparr>InvokeID = invokeID, Confirmed = confirmed, HighPriority = highPriority\<rparr>)"

definition InvokeIdAndPriority_FromBytes :: "byte list \<Rightarrow> InvokeIdAndPriority outcome" where
  "InvokeIdAndPriority_FromBytes data =
     (if length data \<noteq> 1 then
        Error (Errorf ''length of data does not correspond with class LENGTH. Should be %d, got %d''
                 [1, int (length data)])
      else
        let val = hd data;
            invokeID = val AND 0b00001111;
            confirmed = (val AND 0b01000000 \<noteq> 0);
            highPriority = (val AND 0b10000000 \<noteq> 0)
        in NewInvokeIdAndPriority invokeID confirmed highPriority)"

definition InvokeIdAndPriority_ToBytes :: "InvokeIdAndPriority \<Rightarrow> byte list" where
  "InvokeIdAndPriority_ToBytes i =
     (let out = InvokeID i;
          out = (if Confirmed i then out OR 0b01000000 else out);
          out = (if HighPriority i then out OR 0b10000000 else out)
      in [out])"

definition GetResponseTag :: byte where
  "GetResponseTag = 196"

text \<open>The constant \<open>GetResponseWithBlock\<close> of type \<open>enumerations.GetResponseType\<close>.\<close>

definition GetResponseWithBlock :: byte where
  "GetResponseWithBlock = 2"

record GetResponseWithDataBlock = BaseXDlmsApdu +
  InvokeIdAndPriority :: InvokeIdAndPriority
  LastBlock :: bool
  BlockNumber :: uint32
  RawData :: "byte list"

definition NewGetResponseWithDataBlock ::
  "InvokeIdAndPriority \<Rightarrow> bool \<Rightarrow> uint32 \<Rightarrow> byte list \<Rightarrow> GetResponseWithDataBlock" where
  "NewGetResponseWithDataBlock invokeIdAndPriority lastBlock blockNumber rawData =
     \<lparr>Tag = GetResponseTag, InvokeIdAndPriority = invokeIdAndPriority, LastBlock = lastBlock,
      BlockNumber = blockNumber, RawData = rawData\<rparr>"

text \<open>
  \<open>GetResponseWithDataBlock.FromBytes\<close>.  Each \<open>data = data[n:]\<close> of the source is a
  \<open>drop n\<close> here; every index and slice expression is guarded by the length check before it.
\<close>

definition GetResponseWithDataBlock_FromBytes :: "byte list \<Rightarrow> GetResponseWithDataBlock outcome" where
  "GetResponseWithDataBlock_FromBytes data0 =
     (if length data0 < 2 then Error (Errorf ''insufficient data for GetResponseWithDataBlock'' [])
      else if data0 ! 0 \<noteq> GetResponseTag then
        Error (Errorf ''tag for GET response is not correct. Got %d, should be %d''
                 [uint (data0 ! 0), uint GetResponseTag])
      else if data0 ! 1 \<noteq> GetResponseWithBlock then
        Error (Errorf ''the data for the GetResponse is not for a GetResponseWithDataBlock'' [])
      else
        (let data1 = drop 2 data0 in
         if length data1 < 1 then Error (Errorf ''insufficient data for invoke_id_and_priority'' [])
         else
           (case InvokeIdAndPriority_FromBytes (take 1 data1) of
              Error err \<Rightarrow> Error (Wrapf ''failed to parse invoke_id_and_priority: %w'' err)
            | Panic p \<Rightarrow> Panic p
            | Return invokeIdAndPriority \<Rightarrow>
                (let data2 = drop 1 data1 in
                 if length data2 < 1 then Error (Errorf ''insufficient data for last_block'' [])
                 else
                   (let lastBlock = (data2 ! 0 \<noteq> 0);
                        data3 = drop 1 data2
                    in
                    if length data3 < 4 then
                      Error (Errorf ''insufficient data for block_number'' [])
                    else
                      (case BigEndian_Uint32 (take 4 data3) of
                         Inl p \<Rightarrow> Panic p
                       | Inr blockNumber \<Rightarrow>
                           (let data4 = drop 4 data3 in
                            if length data4 < 1 then
                              Error (Errorf ''insufficient data for raw_data length'' [])
                            else
                              (let rawDataLength = unat (data4 ! 0);
                                   data5 = drop 1 data4
                               in
                               if length data5 < rawDataLength then
                                 Error (Errorf ''insufficient data for raw_data'' [])
                               else
                                 Return (NewGetResponseWithDataBlock invokeIdAndPriority
                                           lastBlock blockNumber
                                           (take rawDataLength data5))))))))))"

section \<open>DLMS session state machine (package dlms)\<close>

text \<open>
  The thirteen sentinel states.  In the source each is a pointer to a \<open>State\<close> value holding
  only a name; the transition table is keyed by these pointers.
\<close>

datatype State =
    NoAssociation
  | AwaitingAssociationResponse
  | Ready
  | AwaitingReleaseResponse
  | AwaitingActionResponse
  | AwaitingGetResponse
  | AwaitingGetBlockResponse
  | ShouldAckLastGetBlock
  | AwaitingSetResponse
  | ShouldSendHlsServerChallengeResult
  | AwaitingHlsClientChallengeResult
  | HlsDone
  | NeedData

text \<open>
  The dynamic type of an event, as \<open>reflect.TypeOf\<close> reports it.  The first 22 constructors
  are the struct types that occur as keys of the transition table; the next four are struct
  types of package xdlms that the table does not mention.  \<open>PointerTo t\<close> is the pointer type
  \<open>*t\<close>, and \<open>OtherType n\<close> is any further type, identified by its name.
\<close>

datatype EventType =
    ApplicationAssociationRequest_t
  | ApplicationAssociationResponse_t
  | ReleaseRequest_t
  | ReleaseResponse_t
  | ExceptionResponse_t
  | GetRequestNormal_t
  | GetRequestNext_t
  | GetResponseNormal_t
  | GetResponseNormalWithError_t
  | GetResponseWithDataBlock_t
  | SetRequestNormal_t
  | SetResponseNormal_t
  | ActionRequestNormal_t
  | ActionResponseNormal_t
  | ActionResponseNormalWithData_t
  | ActionResponseNormalWithError_t
  | DataNotification_t
  | HlsStart_t
  | HlsSuccess_t
  | HlsFailed_t
  | RejectAssociation_t
  | EndAssociation_t
  | GetRequestWithList_t
  | GetResponseWithList_t
  | GetResponseLastBlock_t
  | GetResponseLastBlockWithError_t
  | PointerTo EventType
  | OtherType string

text \<open>
  The two errors \<open>transitionState\<close> can return: the plain \<open>fmt.Errorf\<close> error for a state
  that is no key of the table, and \<open>LocalDlmsProtocolError\<close> for an event type that is no key
  of the state's inner map.  The messages are built from the event type and the state, which
  the constructors carry.
\<close>

datatype dlms_error =
    NoTransitionsDefined State
  | LocalDlmsProtocolError EventType State

record DlmsConnectionState =
  currentState :: State

definition NewDlmsConnectionState :: DlmsConnectionState where
  "NewDlmsConnectionState = \<lparr>currentState = NoAssociation\<rparr>"

definition NewDlmsConnectionStateWithState :: "State \<Rightarrow> DlmsConnectionState" where
  "NewDlmsConnectionStateWithState state = \<lparr>currentState = state\<rparr>"

text \<open>
  \<open>dlmsStateTransitions\<close>: the outer map has twelve keys (\<open>NeedData\<close> is none of them); the
  entries of each inner map are listed in source order, the commented-out ones left out.
\<close>

definition dlmsStateTransitions :: "State \<rightharpoonup> (EventType \<rightharpoonup> State)" where
  "dlmsStateTransitions s =
     (case s of
        NoAssociation \<Rightarrow> Some (map_of
          [(ApplicationAssociationRequest_t, AwaitingAssociationResponse)])
      | AwaitingAssociationResponse \<Rightarrow> Some (map_of
          [(ApplicationAssociationResponse_t, Ready),
           (ExceptionResponse_t, NoAssociation)])
      | Ready \<Rightarrow> Some (map_of
          [(ReleaseRequest_t, AwaitingReleaseResponse),
           (GetRequestNormal_t, AwaitingGetResponse),
           (SetRequestNormal_t, AwaitingSetResponse),
           (HlsStart_t, ShouldSendHlsServerChallengeResult),
           (RejectAssociation_t, NoAssociation),
           (ActionRequestNormal_t, AwaitingActionResponse),
           (DataNotification_t, Ready),
           (EndAssociation_t, NoAssociation)])
      | ShouldSendHlsServerChallengeResult \<Rightarrow> Some (map_of
          [(ActionRequestNormal_t, AwaitingHlsClientChallengeResult)])
      | AwaitingHlsClientChallengeResult \<Rightarrow> Some (map_of
          [(ActionResponseNormalWithData_t, HlsDone),
           (ActionResponseNormal_t, NoAssociation),
           (ActionResponseNormalWithError_t, NoAssociation)])
      | HlsDone \<Rightarrow> Some (map_of
          [(HlsSuccess_t, Ready),
           (HlsFailed_t, NoAssociation)])
      | AwaitingGetResponse \<Rightarrow> Some (map_of
          [(GetResponseNormal_t, Ready),
           (GetResponseWithDataBlock_t, ShouldAckLastGetBlock),
           (GetResponseNormalWithError_t, Ready),
           (ExceptionResponse_t, Ready)])
      | AwaitingGetBlockResponse \<Rightarrow> Some (map_of
          [(GetResponseWithDataBlock_t, ShouldAckLastGetBlock),
           (GetResponseNormalWithError_t, Ready),
           (ExceptionResponse_t, Ready)])
      | AwaitingSetResponse \<Rightarrow> Some (map_of
          [(SetResponseNormal_t, Ready)])
      | AwaitingActionResponse \<Rightarrow> Some (map_of
          [(ActionResponseNormal_t, Ready),
           (ActionResponseNormalWithData_t, Ready),
           (ActionResponseNormalWithError_t, Ready)])
      | ShouldAckLastGetBlock \<Rightarrow> Some (map_of
          [(GetRequestNext_t, AwaitingGetBlockResponse)])
      | AwaitingReleaseResponse \<Rightarrow> Some (map_of
          [(ReleaseResponse_t, NoAssociation),
           (ExceptionResponse_t, Ready)])
      | NeedData \<Rightarrow> None)"

text \<open>
  \<open>transitionState\<close> returns the error (if any) and the receiver after the call.
\<close>

definition transitionState ::
  "DlmsConnectionState \<Rightarrow> EventType \<Rightarrow> dlms_error option \<times> DlmsConnectionState" where
  "transitionState d eventType =
     (case dlmsStateTransitions (currentState d) of
        None \<Rightarrow> (Some (NoTransitionsDefined (currentState d)), d)
      | Some transitions \<Rightarrow>
          (case transitions eventType of
             None \<Rightarrow> (Some (LocalDlmsProtocolError eventType (currentState d)), d)
           | Some newState \<Rightarrow> (None, d\<lparr>currentState := newState\<rparr>)))"

text \<open>
  An event handed to \<open>ProcessEvent\<close>.  Only its dynamic type is looked at.  A parsed GET
  response with a data block is modelled with its contents, both as a struct value and as the
  pointer that \<open>GetResponseWithDataBlock.FromBytes\<close> returns; any other event is modelled by
  its type.
\<close>

datatype Event =
    GetResponseWithDataBlock_value GetResponseWithDataBlock
  | GetResponseWithDataBlock_pointer GetResponseWithDataBlock
  | Event_of_type EventType

fun TypeOf :: "Event \<Rightarrow> EventType" where
  "TypeOf (GetResponseWithDataBlock_value v) = GetResponseWithDataBlock_t"
| "TypeOf (GetResponseWithDataBlock_pointer v) = PointerTo GetResponseWithDataBlock_t"
| "TypeOf (Event_of_type t) = t"

definition ProcessEvent ::
  "DlmsConnectionState \<Rightarrow> Event \<Rightarrow> dlms_error option \<times> DlmsConnectionState" where
  "ProcessEvent d event = (let eventType = TypeOf event in transitionState d eventType)"

text \<open>
  Whether the transition table has an entry for a state and an event type, and its target.
\<close>

definition table_entry :: "State \<Rightarrow> EventType \<Rightarrow> State option" where
  "table_entry s eventType =
     (case dlmsStateTransitions s of None \<Rightarrow> None | Some transitions \<Rightarrow> transitions eventType)"

text \<open>
  The machines that a sequence of successful \<open>ProcessEvent\<close> calls can produce from the
  machine that \<open>NewDlmsConnectionState\<close> makes.
\<close>

inductive reachable :: "DlmsConnectionState \<Rightarrow> bool" where
  reachable_init: "reachable NewDlmsConnectionState"
| reachable_step:
    "reachable d \<Longrightarrow> ProcessEvent d event = (None, d') \<Longrightarrow> reachable d'"

text \<open>The twelve states of the specification.\<close>

definition spec_states :: "State list" where
  "spec_states =
     [NoAssociation, AwaitingAssociationResponse, Ready, AwaitingReleaseResponse,
      AwaitingActionResponse, AwaitingGetResponse, AwaitingGetBlockResponse,
      ShouldAckLastGetBlock, AwaitingSetResponse, ShouldSendHlsServerChallengeResult,
      AwaitingHlsClientChallengeResult, HlsDone]"

text \<open>
  The rows of the transition table of section 4.9 of the specification for the two states
  that wait for a GET response, as the specification words them: the row of
  AwaitingGetBlockResponse is ``same as AwaitingGetResponse''.
\<close>

definition spec_get_response_row :: "(EventType \<times> State) list" where
  "spec_get_response_row =
     [(GetResponseNormal_t, Ready),
      (GetResponseNormalWithError_t, Ready),
      (ExceptionResponse_t, Ready),
      (GetResponseWithDataBlock_t, ShouldAckLastGetBlock)]"

definition spec_table :: "(State \<times> EventType \<times> State) list" where
  "spec_table =
     [(NoAssociation, ApplicationAssociationRequest_t, AwaitingAssociationResponse),
      (AwaitingAssociationResponse, ApplicationAssociationResponse_t, Ready),
      (AwaitingAssociationResponse, ExceptionResponse_t, NoAssociation),
      (Ready, GetRequestNormal_t, AwaitingGetResponse),
      (Ready, SetRequestNormal_t, AwaitingSetResponse),
      (Ready, ActionRequestNormal_t, AwaitingActionResponse),
      (Ready, ReleaseRequest_t, AwaitingReleaseResponse),
      (Ready, HlsStart_t, ShouldSendHlsServerChallengeResult),
      (Ready, DataNotification_t, Ready),
      (Ready, RejectAssociation_t, NoAssociation),
      (Ready, EndAssociation_t, NoAssociation),
      (ShouldSendHlsServerChallengeResult, ActionRequestNormal_t,
         AwaitingHlsClientChallengeResult),
      (AwaitingHlsClientChallengeResult, ActionResponseNormalWithData_t, HlsDone),
      (AwaitingHlsClientChallengeResult, ActionResponseNormal_t, NoAssociation),
      (AwaitingHlsClientChallengeResult, ActionResponseNormalWithError_t, NoAssociation),
      (HlsDone, HlsSuccess_t, Ready),
      (HlsDone, HlsFailed_t, NoAssociation)]
     @ map (\<lambda>(e, t). (AwaitingGetResponse, e, t)) spec_get_response_row
     @ [(ShouldAckLastGetBlock, GetRequestNext_t, AwaitingGetBlockResponse)]
     @ map (\<lambda>(e, t). (AwaitingGetBlockResponse, e, t)) spec_get_response_row
     @ [(AwaitingSetResponse, SetResponseNormal_t, Ready),
        (AwaitingActionResponse, ActionResponseNormal_t, Ready),
        (AwaitingActionResponse, ActionResponseNormalWithData_t, Ready),
        (AwaitingActionResponse, ActionResponseNormalWithError_t, Ready),
        (AwaitingReleaseResponse, ReleaseResponse_t, NoAssociation),
        (AwaitingReleaseResponse, ExceptionResponse_t, Ready)]"

text \<open>
  The same table with the one row removed that the source does not have: a
  \<open>GetResponseNormal\<close> in AwaitingGetBlockResponse.
\<close>

definition amended_table :: "(State \<times> EventType \<times> State) list" where
  "amended_table =
     filter (\<lambda>r. r \<noteq> (AwaitingGetBlockResponse, GetResponseNormal_t, Ready)) spec_table"

definition table_target ::
  "(State \<times> EventType \<times> State) list \<Rightarrow> State \<Rightarrow> EventType \<Rightarrow> State option" where
  "table_target tab s e = map_of (map (\<lambda>(a, b, c). ((a, b), c)) tab) (s, e)"

section \<open>ExceptionResponse (xdlms/exception_response.go)\<close>

definition ExceptionResponseTag :: byte where
  "ExceptionResponseTag = 216"

text \<open>The constant \<open>ServiceExceptionInvocationCounterError\<close> of package enumerations.\<close>

definition ServiceExceptionInvocationCounterError :: byte where
  "ServiceExceptionInvocationCounterError = 6"

text \<open>
  \<open>StateError\<close> and \<open>ServiceError\<close> have the types \<open>StateException\<close> and
  \<open>ServiceException\<close>, both \<open>uint8\<close>; \<open>InvocationCounterData\<close> is a \<open>*uint32\<close>, nil
  being \<open>None\<close>.
\<close>

record ExceptionResponse = BaseXDlmsApdu +
  StateError :: byte
  ServiceError :: byte
  InvocationCounterData :: "uint32 option"

definition NewExceptionResponse :: "byte \<Rightarrow> byte \<Rightarrow> uint32 option \<Rightarrow> ExceptionResponse" where
  "NewExceptionResponse stateError serviceError invocationCounterData =
     \<lparr>Tag = ExceptionResponseTag, StateError = stateError, ServiceError = serviceError,
      InvocationCounterData = invocationCounterData\<rparr>"

definition ExceptionResponse_FromBytes :: "byte list \<Rightarrow> ExceptionResponse outcome" where
  "ExceptionResponse_FromBytes sourceBytes =
     (if length sourceBytes < 3 then
        Error (Errorf ''insufficient data for ExceptionResponse, need at least 3 bytes'' [])
      else if sourceBytes ! 0 \<noteq> ExceptionResponseTag then
        Error (Errorf ''tag for ExceptionResponse is not %d, got %d instead''
                 [uint ExceptionResponseTag, uint (sourceBytes ! 0)])
      else
        (let stateError = sourceBytes ! 1;
             serviceError = sourceBytes ! 2;
             data = drop 3 sourceBytes
         in
           if serviceError = ServiceExceptionInvocationCounterError then
             (if length data < 4 then
                Error (Errorf ''insufficient data for invocation counter, need 4 bytes'' [])
              else
                (case BigEndian_Uint32 (take 4 data) of
                   Inl p \<Rightarrow> Panic p
                 | Inr counter \<Rightarrow>
                     Return (NewExceptionResponse stateError serviceError (Some counter))))
           else Return (NewExceptionResponse stateError serviceError None)))"

definition ExceptionResponse_ToBytes :: "ExceptionResponse \<Rightarrow> byte list outcome" where
  "ExceptionResponse_ToBytes e =
     (let result = [ExceptionResponseTag, StateError e, ServiceError e] in
        case InvocationCounterData e of
          None \<Rightarrow> Return result
        | Some counter \<Rightarrow>
            (case BigEndian_PutUint32 (replicate 4 0) counter of
               Inl p \<Rightarrow> Panic p
             | Inr counterBytes \<Rightarrow> Return (result @ counterBytes)))"

section \<open>Conformance (xdlms/conformance.go)\<close>

record Conformance =
  GeneralProtection :: bool
  GeneralBlockTransfer :: bool
  DeltaValueEncoding :: bool
  Attribute0SupportedWithSet :: bool
  PriorityManagementSupported :: bool
  Attribute0SupportedWithGet :: bool
  BlockTransferWithGetOrRead :: bool
  BlockTransferWithSetOrWrite :: bool
  BlockTransferWithAction :: bool
  MultipleReferences :: bool
  DataNotification :: bool
  Access :: bool
  Get :: bool
  Set :: bool
  SelectiveAccess :: bool
  EventNotification :: bool
  Action :: bool

text \<open>
  \<open>ConformanceBitPosition\<close>, a Go map from names to bit positions; indexing it with a key it
  does not have gives 0.
\<close>

definition ConformanceBitPosition_entries :: "(string \<times> nat) list" where
  "ConformanceBitPosition_entries =
     [(''general_protection'', 22),
      (''general_block_transfer'', 21),
      (''delta_value_encoding'', 17),
      (''attribute_0_supported_with_set'', 15),
      (''priority_management_supported'', 14),
      (''attribute_0_supported_with_get'', 13),
      (''block_transfer_with_get_or_read'', 12),
      (''block_transfer_with_set_or_write'', 11),
      (''block_transfer_with_action'', 10),
      (''multiple_references'', 9),
      (''data_notification'', 7),
      (''access'', 6),
      (''get'', 4),
      (''set'', 3),
      (''selective_access'', 2),
      (''event_notification'', 1),
      (''action'', 0)]"

definition ConformanceBitPosition :: "string \<Rightarrow> nat" where
  "ConformanceBitPosition name =
     (case map_of ConformanceBitPosition_entries name of None \<Rightarrow> 0 | Some pos \<Rightarrow> pos)"

text \<open>\<open>(integerRepresentation & (1 << ConformanceBitPosition[name])) != 0\<close>\<close>

definition conformance_bit_set :: "uint32 \<Rightarrow> string \<Rightarrow> bool" where
  "conformance_bit_set integerRepresentation name \<longleftrightarrow>
     integerRepresentation AND push_bit (ConformanceBitPosition name) 1 \<noteq> 0"

definition Conformance_FromBytes :: "byte list \<Rightarrow> Conformance outcome" where
  "Conformance_FromBytes data =
     (if length data < 4 then
        Error (Errorf ''insufficient data for Conformance: need at least 4 bytes, got %d''
                 [int (length data)])
      else
        (case BigEndian_Uint32 ([0] @ take 3 (drop 1 data)) of
           Inl p \<Rightarrow> Panic p
         | Inr integerRepresentation \<Rightarrow>
             Return
               \<lparr>GeneralProtection = conformance_bit_set integerRepresentation ''general_protection'',
                GeneralBlockTransfer =
                  conformance_bit_set integerRepresentation ''general_block_transfer'',
                DeltaValueEncoding =
                  conformance_bit_set integerRepresentation ''delta_value_encoding'',
                Attribute0SupportedWithSet =
                  conformance_bit_set integerRepresentation ''attribute_0_supported_with_set'',
                PriorityManagementSupported =
                  conformance_bit_set integerRepresentation ''priority_management_supported'',
                Attribute0SupportedWithGet =
                  conformance_bit_set integerRepresentation ''attribute_0_supported_with_get'',
                BlockTransferWithGetOrRead =
                  conformance_bit_set integerRepresentation ''block_transfer_with_get_or_read'',
                BlockTransferWithSetOrWrite =
                  conformance_bit_set integerRepresentation ''block_transfer_with_set_or_write'',
                BlockTransferWithAction =
                  conformance_bit_set integerRepresentation ''block_transfer_with_action'',
                MultipleReferences =
                  conformance_bit_set integerRepresentation ''multiple_references'',
                DataNotification = conformance_bit_set integerRepresentation ''data_notification'',
                Access = conformance_bit_set integerRepresentation ''access'',
                Get = conformance_bit_set integerRepresentation ''get'',
                Set = conformance_bit_set integerRepresentation ''set'',
                SelectiveAccess = conformance_bit_set integerRepresentation ''selective_access'',
                EventNotification =
                  conformance_bit_set integerRepresentation ''event_notification'',
                Action = conformance_bit_set integerRepresentation ''action''\<rparr>))"

text \<open>\<open>if flag { out |= 1 << ConformanceBitPosition[name] }\<close>\<close>

definition or_flag :: "bool \<Rightarrow> string \<Rightarrow> uint32 \<Rightarrow> uint32" where
  "or_flag flag name out =
     (if flag then out OR push_bit (ConformanceBitPosition name) 1 else out)"

text \<open>The value of \<open>out\<close> after the seventeen conditional assignments of \<open>ToBytes\<close>.\<close>

definition Conformance_out :: "Conformance \<Rightarrow> uint32" where
  "Conformance_out c =
     (or_flag (Action c) ''action''
     (or_flag (EventNotification c) ''event_notification''
     (or_flag (SelectiveAccess c) ''selective_access''
     (or_flag (Set c) ''set''
     (or_flag (Get c) ''get''
     (or_flag (Access c) ''access''
     (or_flag (DataNotification c) ''data_notification''
     (or_flag (MultipleReferences c) ''multiple_references''
     (or_flag (BlockTransferWithAction c) ''block_transfer_with_action''
     (or_flag (BlockTransferWithSetOrWrite c) ''block_transfer_with_set_or_write''
     (or_flag (BlockTransferWithGetOrRead c) ''block_transfer_with_get_or_read''
     (or_flag (Attribute0SupportedWithGet c) ''attribute_0_supported_with_get''
     (or_flag (PriorityManagementSupported c) ''priority_management_supported''
     (or_flag (Attribute0SupportedWithSet c) ''attribute_0_supported_with_set''
     (or_flag (DeltaValueEncoding c) ''delta_value_encoding''
     (or_flag (GeneralBlockTransfer c) ''general_block_transfer''
     (or_flag (GeneralProtection c) ''general_protection'' 0)))))))))))))))))"

text \<open>
  \<open>Conformance.ToBytes\<close>.  \<open>result\<close> is a slice of four zero bytes; \<open>result[0]\<close> is
  assigned 0; \<open>PutUint32\<close> is applied to the slice \<open>result[1:]\<close>, which has three bytes and
  shares its storage with \<open>result\<close>; the function returns \<open>result[:4]\<close>.
\<close>

definition Conformance_ToBytes :: "Conformance \<Rightarrow> go_panic + byte list" where
  "Conformance_ToBytes c =
     (let out = Conformance_out c;
          result = replicate 4 (0 :: byte);
          result = result[0 := 0x00]
      in
        case BigEndian_PutUint32 (drop 1 result) out of
          Inl p \<Rightarrow> Inl p
        | Inr written \<Rightarrow> Inr (take 4 (take 1 result @ written)))"

section \<open>OBIS codes (cosem/obis.go)\<close>

text \<open>The character class \<open>\d\<close> of Go regular expressions: the ASCII digits.\<close>

definition is_digit :: "char \<Rightarrow> bool" where
  "is_digit ch \<longleftrightarrow> ch \<in> set ''0123456789''"

text \<open>
  \<open>match_parts n s\<close> matches the whole of \<open>s\<close> against \<open>n\<close> groups \<open>(\d{1,3})\<close> separated
  by the literal \<open>\.\<close>, between the anchors \<open>^\<close> and \<open>$\<close>, and returns the groups.  After a
  group the pattern wants a dot or the end of the text, neither of which a digit matches, so
  a group is a maximal run of digits, and it must have one to three of them.
\<close>

fun match_parts :: "nat \<Rightarrow> string \<Rightarrow> string list option" where
  "match_parts 0 s = None"
| "match_parts (Suc n) s =
     (let ds = takeWhile is_digit s; rest = dropWhile is_digit s in
        if length ds < 1 \<or> 3 < length ds then None
        else if n = 0 then (if rest = [] then Some [ds] else None)
        else
          (case rest of
             [] \<Rightarrow> None
           | ch # rest' \<Rightarrow>
               if ch = CHR ''.'' then map_option ((#) ds) (match_parts n rest') else None))"

text \<open>
  \<open>sixPartRegex.FindStringSubmatch(s)[1:]\<close> and \<open>fivePartRegex.FindStringSubmatch(s)[1:]\<close>;
  \<open>None\<close> is the nil result of a text that does not match.
\<close>

definition sixPartRegex :: "string \<Rightarrow> string list option" where
  "sixPartRegex s = match_parts 6 s"

definition fivePartRegex :: "string \<Rightarrow> string list option" where
  "fivePartRegex s = match_parts 5 s"

text \<open>
  \<open>strconv.Atoi\<close>: an optional sign and then one or more decimal digits; a value outside
  the 64-bit range is an error.
\<close>

definition digits_value :: "string \<Rightarrow> int" where
  "digits_value ds = foldl (\<lambda>acc ch. 10 * acc + (of_char ch - 48)) 0 ds"

definition Atoi :: "string \<Rightarrow> go_error + int" where
  "Atoi s =
     (let neg = (s \<noteq> [] \<and> hd s = CHR ''-'');
          ds = (if s \<noteq> [] \<and> (hd s = CHR ''-'' \<or> hd s = CHR ''+'') then tl s else s)
      in
        if ds = [] \<or> \<not> list_all is_digit ds then
          Inl (Errorf_string ''strconv.Atoi: parsing %q: invalid syntax'' s)
        else
          (let v = (if neg then - digits_value ds else digits_value ds) in
             if v < - (2 ^ 63) \<or> 2 ^ 63 - 1 < v then
               Inl (Errorf_string ''strconv.Atoi: parsing %q: value out of range'' s)
             else Inr v))"

record Obis =
  A :: int
  B :: int
  C :: int
  D :: int
  E :: int
  F :: int

definition validateOBISComponent :: "int \<Rightarrow> go_error option" where
  "validateOBISComponent v =
     (if v < 0 \<or> v > 255 then
        Some (Errorf ''OBIS component must be between 0 and 255, got %d'' [v])
      else None)"

definition NewObis :: "int \<Rightarrow> int \<Rightarrow> int \<Rightarrow> int \<Rightarrow> int \<Rightarrow> int \<Rightarrow> Obis outcome" where
  "NewObis a b c d e f =
     (case validateOBISComponent a of
        Some err \<Rightarrow> Error (Wrapf ''invalid A component: %w'' err)
      | None \<Rightarrow>
     (case validateOBISComponent b of
        Some err \<Rightarrow> Error (Wrapf ''invalid B component: %w'' err)
      | None \<Rightarrow>
     (case validateOBISComponent c of
        Some err \<Rightarrow> Error (Wrapf ''invalid C component: %w'' err)
      | None \<Rightarrow>
     (case validateOBISComponent d of
        Some err \<Rightarrow> Error (Wrapf ''invalid D component: %w'' err)
      | None \<Rightarrow>
     (case validateOBISComponent e of
        Some err \<Rightarrow> Error (Wrapf ''invalid E component: %w'' err)
      | None \<Rightarrow>
     (case validateOBISComponent f of
        Some err \<Rightarrow> Error (Wrapf ''invalid F component: %w'' err)
      | None \<Rightarrow> Return \<lparr>A = a, B = b, C = c, D = d, E = e, F = f\<rparr>))))))"

definition Obis_FromBytes :: "byte list \<Rightarrow> Obis outcome" where
  "Obis_FromBytes sourceBytes =
     (if length sourceBytes \<noteq> 6 then
        Error (Errorf ''not enough data to parse OBIS. Need 6 bytes but got %d''
                 [int (length sourceBytes)])
      else
        NewObis (uint (sourceBytes ! 0)) (uint (sourceBytes ! 1)) (uint (sourceBytes ! 2))
          (uint (sourceBytes ! 3)) (uint (sourceBytes ! 4)) (uint (sourceBytes ! 5)))"

text \<open>
  The loop \<open>for i, part := range parts\<close> of \<open>FromString\<close>: it converts the parts in order and
  returns at the first that \<open>Atoi\<close> rejects.
\<close>

fun parse_parts :: "string list \<Rightarrow> go_error + int list" where
  "parse_parts [] = Inr []"
| "parse_parts (part # parts) =
     (case Atoi part of
        Inl err \<Rightarrow> Inl (Wrapf ''failed to parse component %d: %w'' err)
      | Inr val \<Rightarrow>
          (case parse_parts parts of
             Inl err \<Rightarrow> Inl err
           | Inr vals \<Rightarrow> Inr (val # vals)))"

definition Obis_FromString :: "string \<Rightarrow> Obis outcome" where
  "Obis_FromString obisString =
     (case sixPartRegex obisString of
        Some parts \<Rightarrow>
          (case parse_parts parts of
             Inl err \<Rightarrow> Error err
           | Inr values \<Rightarrow>
               NewObis (values ! 0) (values ! 1) (values ! 2) (values ! 3) (values ! 4)
                 (values ! 5))
      | None \<Rightarrow>
          (case fivePartRegex obisString of
             Some parts \<Rightarrow>
               (case parse_parts parts of
                  Inl err \<Rightarrow> Error err
                | Inr values \<Rightarrow>
                    NewObis (values ! 0) (values ! 1) (values ! 2) (values ! 3) (values ! 4) 255)
           | None \<Rightarrow> Error (Errorf_string ''%s is not a parsable OBIS string'' obisString)))"

section \<open>Big-endian encoding: writing the bytes of a word gives back the bytes it was read from\<close>

lemma be_byte0:
  "ucast (drop_bit 24 (ucast (b3::byte) OR push_bit 8 (ucast (b2::byte)) OR
      push_bit 16 (ucast (b1::byte)) OR push_bit 24 (ucast (b0::byte)) :: uint32)) = b0"
  by (rule bit_word_eqI) (auto simp add: bit_simps dest: bit_imp_le_length)

lemma be_byte1:
  "ucast (drop_bit 16 (ucast (b3::byte) OR push_bit 8 (ucast (b2::byte)) OR
      push_bit 16 (ucast (b1::byte)) OR push_bit 24 (ucast (b0::byte)) :: uint32)) = b1"
  by (rule bit_word_eqI) (auto simp add: bit_simps dest: bit_imp_le_length)

lemma be_byte2:
  "ucast (drop_bit 8 (ucast (b3::byte) OR push_bit 8 (ucast (b2::byte)) OR
      push_bit 16 (ucast (b1::byte)) OR push_bit 24 (ucast (b0::byte)) :: uint32)) = b2"
  by (rule bit_word_eqI) (auto simp add: bit_simps dest: bit_imp_le_length)

lemma be_byte3:
  "ucast (ucast (b3::byte) OR push_bit 8 (ucast (b2::byte)) OR
      push_bit 16 (ucast (b1::byte)) OR push_bit 24 (ucast (b0::byte)) :: uint32) = b3"
  by (rule bit_word_eqI) (auto simp add: bit_simps dest: bit_imp_le_length)

lemma replicate_4: "replicate 4 x = [x, x, x, x]"
  by (simp add: numeral_eq_Suc)

lemma PutUint32_of_bytes:
  "BigEndian_PutUint32 (replicate 4 0)
     (ucast (b3::byte) OR push_bit 8 (ucast (b2::byte)) OR
      push_bit 16 (ucast (b1::byte)) OR push_bit 24 (ucast (b0::byte))) = Inr [b0, b1, b2, b3]"
  by (simp only: replicate_4 BigEndian_PutUint32.simps be_byte0 be_byte1 be_byte2 be_byte3)

lemma PutUint32_Uint32:
  "BigEndian_Uint32 (b0 # b1 # b2 # b3 # rest) = Inr v \<Longrightarrow>
   BigEndian_PutUint32 (replicate 4 0) v = Inr [b0, b1, b2, b3]"
  using PutUint32_of_bytes [of b3 b2 b1 b0] by (simp del: drop_bit_or)

lemma at_least_3_elems: "3 \<le> length xs \<Longrightarrow> \<exists>a b c r. xs = a # b # c # r"
  by (cases xs; simp; rename_tac ys, case_tac ys; simp; rename_tac zs, case_tac zs; simp)

lemma at_least_4_elems: "4 \<le> length xs \<Longrightarrow> \<exists>a b c d r. xs = a # b # c # d # r"
  using at_least_3_elems [of "tl xs"] by (cases xs) auto

section \<open>Properties of the HDLC link state machine\<close>

lemma ProcessFrame_spec_link_target:
  "ProcessFrame h (PointerToFrame f) =
     (case spec_link_target (CurrentState h) f of
        Some t \<Rightarrow> (None, h\<lparr>CurrentState := t\<rparr>)
      | None \<Rightarrow>
          (Some (LocalProtocolError (getFrameType (PointerToFrame f)) (CurrentState h)), h))"
  by (cases "CurrentState h"; cases f)
    (simp_all add: ProcessFrame_def Let_def hdlcStateTransitions_def)

lemma ProcessFrame_OtherValue:
  "ProcessFrame h OtherValue = (Some (LocalProtocolError FrameTypeEmpty (CurrentState h)), h)"
  by (cases "CurrentState h") (simp_all add: ProcessFrame_def Let_def hdlcStateTransitions_def)

text \<open>
  Claim C7.  The link state machine accepts exactly the eight arcs of the transition table.
  Given a frame \<open>f\<close> of one of the five frame types, \<open>ProcessFrame\<close> returns no error and
  moves to the target exactly when the specification has an arc for the current state and
  the kind of \<open>f\<close>: an SNRM frame in NotConnected (to AwaitingConnection), a UA frame in
  AwaitingConnection (to Idle) or in AwaitingDisconnect (to NotConnected), an I or RR frame
  in Idle (to AwaitingResponse) or in AwaitingResponse (to Idle), a DISC frame in Idle (to
  AwaitingDisconnect).  On every other state and frame, and on a value that is no frame, it
  returns a \<open>LocalProtocolError\<close> naming the frame's type and the state, and keeps the
  state.  \<open>IsSendState\<close> holds exactly in NotConnected and Idle, \<open>IsReceiveState\<close>
  exactly in the three Awaiting states.
\<close>

theorem link_fsm_accepts_exactly_table:
  "ProcessFrame h (PointerToFrame f) =
     (case spec_link_target (CurrentState h) f of
        Some t \<Rightarrow> (None, h\<lparr>CurrentState := t\<rparr>)
      | None \<Rightarrow>
          (Some (LocalProtocolError (getFrameType (PointerToFrame f)) (CurrentState h)), h))
   \<and> ProcessFrame h OtherValue =
       (Some (LocalProtocolError FrameTypeEmpty (CurrentState h)), h)
   \<and> getFrameType (PointerToFrame (SetNormalResponseModeFrame b1)) =
       FrameTypeSetNormalResponseMode
   \<and> getFrameType (PointerToFrame (UnNumberedAcknowledgmentFrame b2)) =
       FrameTypeUnNumberedAcknowledgment
   \<and> getFrameType (PointerToFrame (InformationFrame b3 ns nr)) = FrameTypeInformation
   \<and> getFrameType (PointerToFrame (ReceiveReadyFrame b4 nr')) = FrameTypeReceiveReady
   \<and> getFrameType (PointerToFrame (DisconnectFrame b5)) = FrameTypeDisconnect
   \<and> (IsSendState h \<longleftrightarrow> CurrentState h \<in> {HdlcStateNotConnected, HdlcStateIdle})
   \<and> (IsReceiveState h \<longleftrightarrow>
        CurrentState h \<in> {HdlcStateAwaitingConnection, HdlcStateAwaitingResponse,
                          HdlcStateAwaitingDisconnect})"
  by (simp add: ProcessFrame_spec_link_target ProcessFrame_OtherValue IsSendState_def
      IsReceiveState_def)

theorem link_fsm_accepts_exactly_table_witness:
  "ProcessFrame \<lparr>CurrentState = HdlcStateNotConnected\<rparr>
     (PointerToFrame (NewSetNormalResponseModeFrame scenario_server scenario_client)) =
     (None, \<lparr>CurrentState = HdlcStateAwaitingConnection\<rparr>)
   \<and> ProcessFrame \<lparr>CurrentState = HdlcStateAwaitingConnection\<rparr>
     (PointerToFrame (NewUnNumberedAcknowledgmentFrame scenario_client scenario_server [])) =
     (None, \<lparr>CurrentState = HdlcStateIdle\<rparr>)
   \<and> ProcessFrame \<lparr>CurrentState = HdlcStateIdle\<rparr>
     (PointerToFrame
        (NewInformationFrame scenario_server scenario_client [0xC0, 0x01] 0 0 False True)) =
     (None, \<lparr>CurrentState = HdlcStateAwaitingResponse\<rparr>)
   \<and> ProcessFrame \<lparr>CurrentState = HdlcStateAwaitingResponse\<rparr>
     (PointerToFrame (NewReceiveReadyFrame scenario_client scenario_server 1)) =
     (None, \<lparr>CurrentState = HdlcStateIdle\<rparr>)
   \<and> ProcessFrame \<lparr>CurrentState = HdlcStateIdle\<rparr>
     (PointerToFrame (NewDisconnectFrame scenario_server scenario_client)) =
     (None, \<lparr>CurrentState = HdlcStateAwaitingDisconnect\<rparr>)
   \<and> ProcessFrame \<lparr>CurrentState = HdlcStateAwaitingDisconnect\<rparr>
     (PointerToFrame (NewUnNumberedAcknowledgmentFrame scenario_client scenario_server [])) =
     (None, \<lparr>CurrentState = HdlcStateNotConnected\<rparr>)
   \<and> ProcessFrame \<lparr>CurrentState = HdlcStateIdle\<rparr>
     (PointerToFrame (NewUnNumberedAcknowledgmentFrame scenario_client scenario_server [])) =
     (Some (LocalProtocolError FrameTypeUnNumberedAcknowledgment HdlcStateIdle),
      \<lparr>CurrentState = HdlcStateIdle\<rparr>)
   \<and> ProcessFrame \<lparr>CurrentState = HdlcStateClosed\<rparr>
     (PointerToFrame (NewSetNormalResponseModeFrame scenario_server scenario_client)) =
     (Some (LocalProtocolError FrameTypeSetNormalResponseMode HdlcStateClosed),
      \<lparr>CurrentState = HdlcStateClosed\<rparr>)
   \<and> IsSendState \<lparr>CurrentState = HdlcStateIdle\<rparr>
   \<and> IsReceiveState \<lparr>CurrentState = HdlcStateAwaitingDisconnect\<rparr>"
  using
    link_fsm_accepts_exactly_table
      [where h = "\<lparr>CurrentState = HdlcStateNotConnected\<rparr>"
         and f = "NewSetNormalResponseModeFrame scenario_server scenario_client"]
    link_fsm_accepts_exactly_table
      [where h = "\<lparr>CurrentState = HdlcStateAwaitingConnection\<rparr>"
         and f = "NewUnNumberedAcknowledgmentFrame scenario_client scenario_server []"]
    link_fsm_accepts_exactly_table
      [where h = "\<lparr>CurrentState = HdlcStateIdle\<rparr>"
         and f = "NewInformationFrame scenario_server scenario_client [0xC0, 0x01] 0 0 False True"]
    link_fsm_accepts_exactly_table
      [where h = "\<lparr>CurrentState = HdlcStateAwaitingResponse\<rparr>"
         and f = "NewReceiveReadyFrame scenario_client scenario_server 1"]
    link_fsm_accepts_exactly_table
      [where h = "\<lparr>CurrentState = HdlcStateIdle\<rparr>"
         and f = "NewDisconnectFrame scenario_server scenario_client"]
    link_fsm_accepts_exactly_table
      [where h = "\<lparr>CurrentState = HdlcStateAwaitingDisconnect\<rparr>"
         and f = "NewUnNumberedAcknowledgmentFrame scenario_client scenario_server []"]
    link_fsm_accepts_exactly_table
      [where h = "\<lparr>CurrentState = HdlcStateIdle\<rparr>"
         and f = "NewUnNumberedAcknowledgmentFrame scenario_client scenario_server []"]
    link_fsm_accepts_exactly_table
      [where h = "\<lparr>CurrentState = HdlcStateClosed\<rparr>"
         and f = "NewSetNormalResponseModeFrame scenario_server scenario_client"]
  by (simp add: NewSetNormalResponseModeFrame_def NewUnNumberedAcknowledgmentFrame_def
      NewInformationFrame_def NewReceiveReadyFrame_def NewDisconnectFrame_def)

section \<open>Properties of the DLMS session state machine\<close>

lemma amended_table_eq: "table_target amended_table s e = table_entry s e"
  by (cases s; cases e)
    (simp_all add: table_target_def amended_table_def spec_table_def spec_get_response_row_def
      table_entry_def dlmsStateTransitions_def)

lemma transitionState_table_entry:
  "transitionState d e =
     (case table_entry (currentState d) e of
        Some t \<Rightarrow> (None, d\<lparr>currentState := t\<rparr>)
      | None \<Rightarrow>
          (Some (if currentState d = NeedData then NoTransitionsDefined NeedData
                 else LocalDlmsProtocolError e (currentState d)), d))"
  by (cases "currentState d")
    (simp_all add: transitionState_def table_entry_def dlmsStateTransitions_def
      split: option.split)

lemma ProcessEvent_table_entry:
  "ProcessEvent d ev =
     (case table_entry (currentState d) (TypeOf ev) of
        Some t \<Rightarrow> (None, d\<lparr>currentState := t\<rparr>)
      | None \<Rightarrow>
          (Some (if currentState d = NeedData then NoTransitionsDefined NeedData
                 else LocalDlmsProtocolError (TypeOf ev) (currentState d)), d))"
  by (simp add: ProcessEvent_def Let_def transitionState_table_entry)

lemma table_entry_target: "table_entry s e = Some t \<Longrightarrow> t \<noteq> NeedData"
  by (cases s; cases e)
    (simp_all add: table_entry_def dlmsStateTransitions_def split: if_splits)

lemma table_entry_source: "table_entry NeedData e = None"
  by (simp add: table_entry_def dlmsStateTransitions_def)

lemma reachable_not_NeedData: "reachable d \<Longrightarrow> currentState d \<noteq> NeedData"
proof (induction rule: reachable.induct)
  case reachable_init
  show ?case by (simp add: NewDlmsConnectionState_def)
next
  case (reachable_step d event d')
  from reachable_step.hyps(2) show ?case
    by (auto simp: ProcessEvent_table_entry split: option.splits dest: table_entry_target)
qed

lemma not_NeedData_spec_states: "s \<noteq> NeedData \<longleftrightarrow> s \<in> set spec_states"
  by (cases s) (simp_all add: spec_states_def)

text \<open>
  Claim C2, amended.  The session state machine accepts exactly the (state, event type)
  pairs of the table of section 4.9 less the pair (AwaitingGetBlockResponse,
  GetResponseNormal): on a pair of \<open>amended_table\<close>, \<open>transitionState\<close> returns no error and
  moves to the target; on every other pair it returns an error and keeps the state.  The
  row of AwaitingGetBlockResponse has three entries: GetResponseNormalWithError and
  ExceptionResponse go to Ready, GetResponseWithDataBlock goes to ShouldAckLastGetBlock.
\<close>

theorem session_fsm_accepts_exactly_amended_table:
  "transitionState d e =
     (case table_target amended_table (currentState d) e of
        Some t \<Rightarrow> (None, d\<lparr>currentState := t\<rparr>)
      | None \<Rightarrow>
          (Some (if currentState d = NeedData then NoTransitionsDefined NeedData
                 else LocalDlmsProtocolError e (currentState d)), d))
   \<and> map snd (filter (\<lambda>r. fst r = AwaitingGetBlockResponse) amended_table) =
       [(GetResponseNormalWithError_t, Ready), (ExceptionResponse_t, Ready),
        (GetResponseWithDataBlock_t, ShouldAckLastGetBlock)]"
  by (simp add: amended_table_eq transitionState_table_entry)
    (simp add: amended_table_def spec_table_def spec_get_response_row_def)

theorem session_fsm_accepts_exactly_amended_table_witness:
  "transitionState \<lparr>currentState = AwaitingGetBlockResponse\<rparr> GetResponseWithDataBlock_t =
     (None, \<lparr>currentState = ShouldAckLastGetBlock\<rparr>)
   \<and> transitionState \<lparr>currentState = AwaitingGetBlockResponse\<rparr> GetRequestNormal_t =
     (Some (LocalDlmsProtocolError GetRequestNormal_t AwaitingGetBlockResponse),
      \<lparr>currentState = AwaitingGetBlockResponse\<rparr>)"
  using session_fsm_accepts_exactly_amended_table
      [of "\<lparr>currentState = AwaitingGetBlockResponse\<rparr>" GetResponseWithDataBlock_t]
    session_fsm_accepts_exactly_amended_table
      [of "\<lparr>currentState = AwaitingGetBlockResponse\<rparr>" GetRequestNormal_t]
  by (simp add: table_target_def amended_table_def spec_table_def spec_get_response_row_def)

text \<open>
  Claim C2 as stated fails: the table of section 4.9 gives AwaitingGetBlockResponse the row
  of AwaitingGetResponse, so it accepts a GetResponseNormal and goes to Ready; the source
  accepts it in AwaitingGetResponse but rejects it in AwaitingGetBlockResponse.
\<close>

theorem session_fsm_get_block_row_counterexample:
  "table_target spec_table AwaitingGetBlockResponse GetResponseNormal_t = Some Ready
   \<and> transitionState \<lparr>currentState = AwaitingGetResponse\<rparr> GetResponseNormal_t =
       (None, \<lparr>currentState = Ready\<rparr>)
   \<and> transitionState \<lparr>currentState = AwaitingGetBlockResponse\<rparr> GetResponseNormal_t =
       (Some (LocalDlmsProtocolError GetResponseNormal_t AwaitingGetBlockResponse),
        \<lparr>currentState = AwaitingGetBlockResponse\<rparr>)"
  by (simp add: table_target_def spec_table_def spec_get_response_row_def
      transitionState_def dlmsStateTransitions_def)

text \<open>
  Claim C9.  In every state reachable from the initial state NoAssociation, an event whose
  type has no entry for that state in the transition table makes \<open>ProcessEvent\<close> return a
  \<open>LocalDlmsProtocolError\<close> and leaves the machine as it was.
\<close>

theorem illegal_event_rejected_state_unchanged:
  "reachable d \<Longrightarrow> table_entry (currentState d) (TypeOf ev) = None \<Longrightarrow>
   ProcessEvent d ev = (Some (LocalDlmsProtocolError (TypeOf ev) (currentState d)), d)"
  by (simp add: ProcessEvent_table_entry reachable_not_NeedData)

theorem illegal_event_rejected_state_unchanged_witness:
  "reachable \<lparr>currentState = AwaitingAssociationResponse\<rparr>
   \<and> table_entry AwaitingAssociationResponse GetRequestNormal_t = None
   \<and> ProcessEvent \<lparr>currentState = AwaitingAssociationResponse\<rparr> (Event_of_type GetRequestNormal_t) =
       (Some (LocalDlmsProtocolError GetRequestNormal_t AwaitingAssociationResponse),
        \<lparr>currentState = AwaitingAssociationResponse\<rparr>)"
proof -
  have r: "reachable \<lparr>currentState = AwaitingAssociationResponse\<rparr>"
    by (rule reachable_step [OF reachable_init,
          of "Event_of_type ApplicationAssociationRequest_t"])
      (simp add: ProcessEvent_table_entry NewDlmsConnectionState_def table_entry_def
        dlmsStateTransitions_def)
  have e: "table_entry (currentState \<lparr>currentState = AwaitingAssociationResponse\<rparr>)
             (TypeOf (Event_of_type GetRequestNormal_t)) = None"
    by (simp add: table_entry_def dlmsStateTransitions_def)
  from illegal_event_rejected_state_unchanged [OF r e] r e show ?thesis by simp
qed

text \<open>
  Claim C10.  No sequence of successful \<open>ProcessEvent\<close> calls from the initial state
  NoAssociation brings the machine to NeedData: no entry of the transition table has
  NeedData as its target, and every reachable state is one of the twelve states of the
  specification, of which NeedData is none.
\<close>

theorem NeedData_unreachable:
  "reachable d \<Longrightarrow>
   currentState d \<noteq> NeedData \<and> currentState d \<in> set spec_states
   \<and> NeedData \<notin> set spec_states \<and> table_entry s e \<noteq> Some NeedData"
  using reachable_not_NeedData [of d] not_NeedData_spec_states [of "currentState d"]
    not_NeedData_spec_states [of NeedData] table_entry_target [of s e NeedData]
  by auto

theorem NeedData_unreachable_witness:
  "reachable \<lparr>currentState = AwaitingAssociationResponse\<rparr>
   \<and> currentState \<lparr>currentState = AwaitingAssociationResponse\<rparr> \<noteq> NeedData
   \<and> AwaitingAssociationResponse \<in> set spec_states
   \<and> table_entry Ready HlsStart_t \<noteq> Some NeedData"
proof -
  have r: "reachable \<lparr>currentState = AwaitingAssociationResponse\<rparr>"
    by (rule reachable_step [OF reachable_init,
          of "Event_of_type ApplicationAssociationRequest_t"])
      (simp add: ProcessEvent_table_entry NewDlmsConnectionState_def table_entry_def
        dlmsStateTransitions_def)
  from NeedData_unreachable [OF r, of Ready HlsStart_t] r show ?thesis by simp
qed

text \<open>
  Claim C4, at the failing input.  The first half holds: in ShouldAckLastGetBlock a
  GetRequestNext moves the machine to AwaitingGetBlockResponse.  The second half does not:
  the bytes C4 02 C1 01 00000002 01 AA parse to a GetResponseWithDataBlock whose last-block
  flag is set, and in AwaitingGetBlockResponse that event moves the machine to
  ShouldAckLastGetBlock, not to Ready, as does every GetResponseWithDataBlock value \<open>v\<close>;
  handed over as the pointer that the parser returns, the event is rejected.
\<close>

theorem last_block_does_not_return_to_Ready:
  "ProcessEvent \<lparr>currentState = ShouldAckLastGetBlock\<rparr> (Event_of_type GetRequestNext_t) =
     (None, \<lparr>currentState = AwaitingGetBlockResponse\<rparr>)
   \<and> GetResponseWithDataBlock_FromBytes [0xC4, 0x02, 0xC1, 0x01, 0, 0, 0, 2, 0x01, 0xAA] =
       Return \<lparr>Tag = 196,
               InvokeIdAndPriority = \<lparr>InvokeID = 1, Confirmed = True, HighPriority = True\<rparr>,
               LastBlock = True, BlockNumber = 2, RawData = [0xAA]\<rparr>
   \<and> ProcessEvent \<lparr>currentState = AwaitingGetBlockResponse\<rparr> (GetResponseWithDataBlock_value v) =
       (None, \<lparr>currentState = ShouldAckLastGetBlock\<rparr>)
   \<and> ProcessEvent \<lparr>currentState = AwaitingGetBlockResponse\<rparr> (GetResponseWithDataBlock_pointer v) =
       (Some (LocalDlmsProtocolError (PointerTo GetResponseWithDataBlock_t)
                AwaitingGetBlockResponse),
        \<lparr>currentState = AwaitingGetBlockResponse\<rparr>)"
  by (simp add: ProcessEvent_table_entry table_entry_def dlmsStateTransitions_def
      GetResponseWithDataBlock_FromBytes_def GetResponseTag_def GetResponseWithBlock_def
      InvokeIdAndPriority_FromBytes_def NewInvokeIdAndPriority_def
      NewGetResponseWithDataBlock_def)

section \<open>Properties of ExceptionResponse\<close>

lemma ExceptionResponse_ToBytes_exact:
  "ExceptionResponse_ToBytes e =
     Return ([ExceptionResponseTag, StateError e, ServiceError e] @
             (case InvocationCounterData e of
                None \<Rightarrow> []
              | Some counter \<Rightarrow>
                  [ucast (drop_bit 24 counter), ucast (drop_bit 16 counter),
                   ucast (drop_bit 8 counter), ucast counter]))"
  by (simp add: ExceptionResponse_ToBytes_def replicate_4 split: option.split)

lemma ExceptionResponse_FromBytes_ToBytes:
  assumes "ExceptionResponse_FromBytes src = Return e"
  shows "((InvocationCounterData e \<noteq> None) = (ServiceError e = ServiceExceptionInvocationCounterError))
    \<and> ExceptionResponse_ToBytes e =
        Return (take (if ServiceError e = ServiceExceptionInvocationCounterError then 7 else 3) src)"
proof -
  from assms have len: "3 \<le> length src"
    by (auto simp: ExceptionResponse_FromBytes_def split: if_splits)
  then obtain t st sv rest where src: "src = t # st # sv # rest"
    using at_least_3_elems by blast
  from assms src have tag: "t = ExceptionResponseTag"
    by (auto simp: ExceptionResponse_FromBytes_def split: if_splits)
  show ?thesis
  proof (cases "sv = ServiceExceptionInvocationCounterError")
    case False
    with assms src tag have "e = NewExceptionResponse st sv None"
      by (auto simp: ExceptionResponse_FromBytes_def)
    with False src tag show ?thesis
      by (simp add: NewExceptionResponse_def ExceptionResponse_ToBytes_def)
  next
    case True
    with assms src tag have "4 \<le> length rest"
      by (auto simp: ExceptionResponse_FromBytes_def split: if_splits)
    then obtain b0 b1 b2 b3 r where rest: "rest = b0 # b1 # b2 # b3 # r"
      using at_least_4_elems by blast
    from assms src tag True rest obtain c where
      c: "BigEndian_Uint32 (b0 # b1 # b2 # b3 # []) = Inr c"
      and e: "e = NewExceptionResponse st sv (Some c)"
      by (auto simp: ExceptionResponse_FromBytes_def split: if_splits sum.splits)
    from PutUint32_Uint32 [OF c] e True src tag rest show ?thesis
      by (simp add: NewExceptionResponse_def ExceptionResponse_ToBytes_def)
  qed
qed

text \<open>
  Claim C8, amended.  \<open>FromBytes\<close> of D8 01 06 00 00 12 34 yields state error 1, service
  error 6 (InvocationCounterError) and invocation counter 0x1234, and \<open>ToBytes\<close> of that
  value yields the same seven bytes.  \<open>ToBytes\<close> of any value \<open>e\<close> yields exactly the tag
  D8 and the two error bytes, followed, exactly when \<open>e\<close> carries invocation counter data,
  by the four bytes of the counter, the most significant first.  \<open>FromBytes\<close> reads the
  four bytes after a service error 6 as a big-endian counter, and reads no counter after
  any other service error.  A value \<open>e'\<close> that \<open>FromBytes\<close> returns carries invocation
  counter data exactly when its service error is InvocationCounterError, and \<open>ToBytes\<close>
  of it is the prefix of the parsed bytes that \<open>FromBytes\<close> read: seven bytes in that
  case, three otherwise.
\<close>

theorem ExceptionResponse_counter_present_iff_data:
  "ExceptionResponse_FromBytes [0xD8, 0x01, 0x06, 0x00, 0x00, 0x12, 0x34] =
     Return \<lparr>Tag = 0xD8, StateError = 1, ServiceError = 6, InvocationCounterData = Some 0x1234\<rparr>
   \<and> ExceptionResponse_ToBytes
        \<lparr>Tag = 0xD8, StateError = 1, ServiceError = 6, InvocationCounterData = Some 0x1234\<rparr> =
       Return [0xD8, 0x01, 0x06, 0x00, 0x00, 0x12, 0x34]
   \<and> ExceptionResponse_ToBytes e =
       Return ([0xD8, StateError e, ServiceError e] @
               (case InvocationCounterData e of
                  None \<Rightarrow> []
                | Some counter \<Rightarrow>
                    [ucast (drop_bit 24 counter), ucast (drop_bit 16 counter),
                     ucast (drop_bit 8 counter), ucast counter]))
   \<and> ExceptionResponse_FromBytes (0xD8 # st # 0x06 # hh # hl # lh # ll # rest) =
       Return \<lparr>Tag = 0xD8, StateError = st, ServiceError = 6,
               InvocationCounterData =
                 Some (ucast ll OR push_bit 8 (ucast lh) OR push_bit 16 (ucast hl) OR
                       push_bit 24 (ucast hh))\<rparr>
   \<and> (sv \<noteq> 0x06 \<longrightarrow>
        ExceptionResponse_FromBytes (0xD8 # st # sv # rest) =
          Return \<lparr>Tag = 0xD8, StateError = st, ServiceError = sv,
                  InvocationCounterData = None\<rparr>)
   \<and> (ExceptionResponse_FromBytes src = Return e' \<longrightarrow>
        ((InvocationCounterData e' \<noteq> None) =
           (ServiceError e' = ServiceExceptionInvocationCounterError))
        \<and> ExceptionResponse_ToBytes e' =
            Return (take (if ServiceError e' = ServiceExceptionInvocationCounterError
                          then 7 else 3) src))"
proof (intro conjI impI)
  show "ExceptionResponse_FromBytes [0xD8, 0x01, 0x06, 0x00, 0x00, 0x12, 0x34] =
     Return \<lparr>Tag = 0xD8, StateError = 1, ServiceError = 6, InvocationCounterData = Some 0x1234\<rparr>"
    by (simp add: ExceptionResponse_FromBytes_def ExceptionResponseTag_def
        ServiceExceptionInvocationCounterError_def NewExceptionResponse_def)
  show "ExceptionResponse_ToBytes
        \<lparr>Tag = 0xD8, StateError = 1, ServiceError = 6, InvocationCounterData = Some 0x1234\<rparr> =
       Return [0xD8, 0x01, 0x06, 0x00, 0x00, 0x12, 0x34]"
    by (simp add: ExceptionResponse_ToBytes_def ExceptionResponseTag_def replicate_4)
  show "ExceptionResponse_ToBytes e =
       Return ([0xD8, StateError e, ServiceError e] @
               (case InvocationCounterData e of
                  None \<Rightarrow> []
                | Some counter \<Rightarrow>
                    [ucast (drop_bit 24 counter), ucast (drop_bit 16 counter),
                     ucast (drop_bit 8 counter), ucast counter]))"
    using ExceptionResponse_ToBytes_exact [of e] by (simp add: ExceptionResponseTag_def)
  show "ExceptionResponse_FromBytes (0xD8 # st # 0x06 # hh # hl # lh # ll # rest) =
       Return \<lparr>Tag = 0xD8, StateError = st, ServiceError = 6,
               InvocationCounterData =
                 Some (ucast ll OR push_bit 8 (ucast lh) OR push_bit 16 (ucast hl) OR
                       push_bit 24 (ucast hh))\<rparr>"
    by (simp add: ExceptionResponse_FromBytes_def ExceptionResponseTag_def
        ServiceExceptionInvocationCounterError_def NewExceptionResponse_def)
next
  assume "sv \<noteq> 0x06"
  then show "ExceptionResponse_FromBytes (0xD8 # st # sv # rest) =
          Return \<lparr>Tag = 0xD8, StateError = st, ServiceError = sv,
                  InvocationCounterData = None\<rparr>"
    by (simp add: ExceptionResponse_FromBytes_def ExceptionResponseTag_def
        ServiceExceptionInvocationCounterError_def NewExceptionResponse_def)
next
  assume "ExceptionResponse_FromBytes src = Return e'"
  from ExceptionResponse_FromBytes_ToBytes [OF this]
  show "(InvocationCounterData e' \<noteq> None) =
          (ServiceError e' = ServiceExceptionInvocationCounterError)"
    and "ExceptionResponse_ToBytes e' =
            Return (take (if ServiceError e' = ServiceExceptionInvocationCounterError
                          then 7 else 3) src)"
    by simp_all
qed

theorem ExceptionResponse_counter_present_iff_data_witness:
  "ExceptionResponse_FromBytes [0xD8, 0x01, 0x01, 0xFF] =
     Return \<lparr>Tag = 0xD8, StateError = 1, ServiceError = 1, InvocationCounterData = None\<rparr>
   \<and> ExceptionResponse_ToBytes
       \<lparr>Tag = 0xD8, StateError = 1, ServiceError = 1, InvocationCounterData = None\<rparr> =
       Return [0xD8, 0x01, 0x01]
   \<and> ExceptionResponse_FromBytes [0xD8, 0x02, 0x06, 0x01, 0x02, 0x03, 0x04, 0xFF] =
       Return \<lparr>Tag = 0xD8, StateError = 2, ServiceError = 6,
               InvocationCounterData = Some 0x01020304\<rparr>"
proof -
  note t = ExceptionResponse_counter_present_iff_data
    [where e = "\<lparr>Tag = 0xD8, StateError = 1, ServiceError = 1, InvocationCounterData = None\<rparr>"
       and src = "[0xD8, 0x01, 0x01, 0xFF]"
       and e' = "\<lparr>Tag = 0xD8, StateError = 1, ServiceError = 1,
                  InvocationCounterData = None\<rparr>"
       and st = 1 and sv = 1 and rest = "[0xFF]"]
  from t have p: "ExceptionResponse_FromBytes [0xD8, 0x01, 0x01, 0xFF] =
     Return \<lparr>Tag = 0xD8, StateError = 1, ServiceError = 1, InvocationCounterData = None\<rparr>"
    by simp
  from ExceptionResponse_counter_present_iff_data
    [where st = 2 and hh = 1 and hl = 2 and lh = 3 and ll = 4 and rest = "[0xFF]"]
  have q: "ExceptionResponse_FromBytes [0xD8, 0x02, 0x06, 0x01, 0x02, 0x03, 0x04, 0xFF] =
       Return \<lparr>Tag = 0xD8, StateError = 2, ServiceError = 6,
               InvocationCounterData = Some 0x01020304\<rparr>"
    by simp
  from t p q show ?thesis
    by (simp add: ServiceExceptionInvocationCounterError_def)
qed

text \<open>
  Claim C8 as stated fails: a value whose service error is InvocationCounterError but which
  carries no counter is encoded in three bytes, and a value with another service error that
  carries a counter is encoded with the counter.
\<close>

theorem ExceptionResponse_counter_counterexample:
  "ExceptionResponse_ToBytes
     (NewExceptionResponse 1 ServiceExceptionInvocationCounterError None) =
     Return [0xD8, 0x01, 0x06]
   \<and> ExceptionResponse_ToBytes (NewExceptionResponse 1 1 (Some 0x1234)) =
     Return [0xD8, 0x01, 0x01, 0x00, 0x00, 0x12, 0x34]"
  by (simp add: ExceptionResponse_ToBytes_def NewExceptionResponse_def ExceptionResponseTag_def
      ServiceExceptionInvocationCounterError_def replicate_4)

section \<open>Properties of Conformance\<close>

lemma BigEndian_PutUint32_short: "length b < 4 \<Longrightarrow> BigEndian_PutUint32 b v = Inl (IndexOutOfRange 3 (length b))"
  by (cases "(b, v)" rule: BigEndian_PutUint32.cases) simp_all

text \<open>
  Claim C3, at the failing input.  For every Conformance value \<open>ToBytes\<close> panics with an
  index out of range: \<open>PutUint32\<close> needs four bytes and is given the three of
  \<open>result[1:]\<close>.  Decoding alone works: in 00 00 00 10 \<open>FromBytes\<close> finds the flag Get, at
  bit 4, and no other.
\<close>

theorem Conformance_ToBytes_panics:
  "Conformance_ToBytes c = Inl (IndexOutOfRange 3 3)
   \<and> Conformance_FromBytes [0x00, 0x00, 0x00, 0x10] =
       Return \<lparr>GeneralProtection = False, GeneralBlockTransfer = False,
               DeltaValueEncoding = False, Attribute0SupportedWithSet = False,
               PriorityManagementSupported = False, Attribute0SupportedWithGet = False,
               BlockTransferWithGetOrRead = False, BlockTransferWithSetOrWrite = False,
               BlockTransferWithAction = False, MultipleReferences = False,
               DataNotification = False, Access = False, Get = True, Set = False,
               SelectiveAccess = False, EventNotification = False, Action = False\<rparr>"
  by (simp add: Conformance_ToBytes_def BigEndian_PutUint32_short Conformance_FromBytes_def
      conformance_bit_set_def ConformanceBitPosition_def ConformanceBitPosition_entries_def)

section \<open>Properties of OBIS parsing\<close>

lemma match_parts_numeral:
  "match_parts (numeral k) s =
     (let ds = takeWhile is_digit s; rest = dropWhile is_digit s in
        if length ds < 1 \<or> 3 < length ds then None
        else if pred_numeral k = 0 then (if rest = [] then Some [ds] else None)
        else
          (case rest of
             [] \<Rightarrow> None
           | ch # rest' \<Rightarrow>
               if ch = CHR ''.'' then map_option ((#) ds) (match_parts (pred_numeral k) rest')
               else None))"
  unfolding numeral_eq_Suc [of k] match_parts.simps ..

text \<open>
  Claim C5, at the failing input.  \<open>FromString\<close> rejects "1-0:1.8.0.255": both patterns
  want the separator to be a dot.  The rest of the claim holds on the examples: the dotted
  six-part string and the six bytes give the same value, the five-part string gets
  \<open>F\<close> = 255, and a component of 256 or of four digits is rejected.
\<close>

theorem Obis_FromString_rejects_dash_colon_form:
  "Obis_FromString ''1-0:1.8.0.255'' =
     Error (Errorf_string ''%s is not a parsable OBIS string'' ''1-0:1.8.0.255'')
   \<and> Obis_FromString ''1.0.1.8.0.255'' = Return \<lparr>A = 1, B = 0, C = 1, D = 8, E = 0, F = 255\<rparr>
   \<and> Obis_FromBytes [1, 0, 1, 8, 0, 255] = Return \<lparr>A = 1, B = 0, C = 1, D = 8, E = 0, F = 255\<rparr>
   \<and> Obis_FromString ''1.0.1.8.0'' = Return \<lparr>A = 1, B = 0, C = 1, D = 8, E = 0, F = 255\<rparr>
   \<and> Obis_FromString ''1.0.1.8.0.256'' =
       Error (Wrapf ''invalid F component: %w''
                (Errorf ''OBIS component must be between 0 and 255, got %d'' [256]))
   \<and> Obis_FromString ''1.0.1.8.0.1000'' =
       Error (Errorf_string ''%s is not a parsable OBIS string'' ''1.0.1.8.0.1000'')"
  by (simp add: Obis_FromString_def sixPartRegex_def fivePartRegex_def is_digit_def
      match_parts_numeral Let_def
      Atoi_def digits_value_def NewObis_def validateOBISComponent_def Obis_FromBytes_def)

section \<open>Properties of the CRC\<close>

lemma top_bit: "(x::uint16) AND 0x8000 \<noteq> 0 \<longleftrightarrow> bit x 15"
proof -
  have "(0x8000::uint16) = 2 ^ 15" by simp
  then show ?thesis by (simp only: and_exp_eq_0_iff_not_bit) simp
qed

lemma round_alt:
  "crc_table_round k (crc, cVal) = (push_bit 1 crc XOR top_mask k (crc XOR cVal), push_bit 1 cVal)"
  by (simp only: crc_table_round_def top_bit top_mask_def prod.case) simp

lemma top_mask_xor: "top_mask k (x XOR y) = top_mask k x XOR top_mask k y"
  by (simp add: top_mask_def bit_xor_iff)

lemma xor_shuffle: "((x::uint16) XOR m1) XOR (y XOR m2) = (x XOR y) XOR (m1 XOR m2)"
  by (simp add: ac_simps)

lemma round_xor:
  "crc_table_round k (xor_pair p q) = xor_pair (crc_table_round k p) (crc_table_round k q)"
proof (cases p; cases q)
  fix a b c d assume p: "p = (a, b)" and q: "q = (c, d)"
  have "(a XOR c) XOR (b XOR d) = (a XOR b) XOR (c XOR d)"
    by (simp add: ac_simps)
  then show ?thesis
    unfolding p q xor_pair_def fst_conv snd_conv round_alt
    by (simp only: push_bit_xor top_mask_xor xor_shuffle)
qed

lemma funpow_round_xor:
  "(crc_table_round k ^^ n) (xor_pair p q) =
     xor_pair ((crc_table_round k ^^ n) p) ((crc_table_round k ^^ n) q)"
  by (induction n) (simp_all add: round_xor)

lemma table_of_xor: "table_of (x XOR y) = table_of x XOR table_of y"
proof -
  have "(0, push_bit 8 (x XOR y)) = xor_pair (0, push_bit 8 x) (0 :: uint16, push_bit 8 y)"
    by (simp only: xor_pair_def fst_conv snd_conv push_bit_xor) simp
  then show ?thesis
    by (simp only: table_of_def funpow_round_xor) (simp add: xor_pair_def)
qed

lemma table_of_0: "table_of 0 = 0"
  using table_of_xor [of 0 0] by simp

lemma crc_table_value_eq: "crc_table_value 0x1021 (unat w) = table_of w"
  by (simp add: crc_table_value_def table_of_def)

lemma funpow8: "(f ^^ 8) x = f (f (f (f (f (f (f (f x)))))))"
  by (simp add: eval_nat_numeral)

lemma bit_if_exp:
  "bit (if b then (2::'a::len word) ^ i else 0) n \<longleftrightarrow> b \<and> n = i \<and> i < LENGTH('a)"
  by (auto simp add: bit_exp_iff)

lemma bit_of_bools:
  "bit (of_bools b7 b6 b5 b4 b3 b2 b1 b0 :: 'a::len word) n \<longleftrightarrow>
     n < LENGTH('a) \<and>
     (b7 \<and> n = 7 \<or> b6 \<and> n = 6 \<or> b5 \<and> n = 5 \<or> b4 \<and> n = 4 \<or>
      b3 \<and> n = 3 \<or> b2 \<and> n = 2 \<or> b1 \<and> n = 1 \<or> b0 \<and> n = 0)"
  unfolding of_bools_def bit_or_iff bit_if_exp by auto

lemma low8_of_bools:
  fixes w :: "'a::len word"
  assumes "take_bit 8 w = w"
  shows "w = of_bools (bit w 7) (bit w 6) (bit w 5) (bit w 4) (bit w 3) (bit w 2) (bit w 1) (bit w 0)"
proof (rule bit_word_eqI)
  fix n assume n: "n < LENGTH('a)"
  have "bit (take_bit 8 w) n \<longleftrightarrow> n < 8 \<and> bit w n"
    by (simp add: bit_take_bit_iff)
  with assms have hi: "bit w n \<Longrightarrow> n < 8" by simp
  have lo: "n < 8 \<Longrightarrow> n \<in> {7, 6, 5, 4, 3, 2, 1, 0}"
    by simp arith
  show "bit w n = bit (of_bools (bit w 7) (bit w 6) (bit w 5) (bit w 4) (bit w 3) (bit w 2) (bit w 1) (bit w 0) :: 'a word) n"
    unfolding bit_of_bools using n hi lo by auto
qed

lemma byte_of_bools: "(x::byte) = of_bools (bit x 7) (bit x 6) (bit x 5) (bit x 4) (bit x 3) (bit x 2) (bit x 1) (bit x 0)"
  by (rule low8_of_bools) (simp add: take_bit_word_eq_self)

lemma byte_all:
  assumes "\<And>b7 b6 b5 b4 b3 b2 b1 b0. P (of_bools b7 b6 b5 b4 b3 b2 b1 b0 :: byte)"
  shows "P x"
  using assms byte_of_bools [of x] by metis

lemma of_bools_simps:
  "(of_bools True b6 b5 b4 b3 b2 b1 b0 :: 'a::len word) = 128 OR of_bools False b6 b5 b4 b3 b2 b1 b0"
  "(of_bools False True b5 b4 b3 b2 b1 b0 :: 'a::len word) = 64 OR of_bools False False b5 b4 b3 b2 b1 b0"
  "(of_bools False False True b4 b3 b2 b1 b0 :: 'a::len word) = 32 OR of_bools False False False b4 b3 b2 b1 b0"
  "(of_bools False False False True b3 b2 b1 b0 :: 'a::len word) = 16 OR of_bools False False False False b3 b2 b1 b0"
  "(of_bools False False False False True b2 b1 b0 :: 'a::len word) = 8 OR of_bools False False False False False b2 b1 b0"
  "(of_bools False False False False False True b1 b0 :: 'a::len word) = 4 OR of_bools False False False False False False b1 b0"
  "(of_bools False False False False False False True b0 :: 'a::len word) = 2 OR of_bools False False False False False False False b0"
  "(of_bools False False False False False False False True :: 'a::len word) = 1"
  "(of_bools False False False False False False False False :: 'a::len word) = 0"
  by (simp_all add: of_bools_def)

lemma funpow8u: "fold f [0..<8] x = f 7 (f 6 (f 5 (f 4 (f 3 (f 2 (f 1 (f 0 x)))))))"
  by (simp add: eval_nat_numeral)

lemma reverseByte_involution: "reverseByte (reverseByte x) = x"
proof (rule byte_all [of _ x])
  fix b7 b6 b5 b4 b3 b2 b1 b0
  show "reverseByte (reverseByte (of_bools b7 b6 b5 b4 b3 b2 b1 b0)) = of_bools b7 b6 b5 b4 b3 b2 b1 b0"
    by (cases b7; cases b6; cases b5; cases b4; cases b3; cases b2; cases b1; cases b0)
      (simp_all add: of_bools_simps reverseByte_def funpow8u reverseByte_round_def)
qed

lemma table_kernel:
  assumes "take_bit 8 w = w" and "table_of w AND 0xFF = 0"
  shows "w = 0"
proof -
  have "table_of (of_bools b7 b6 b5 b4 b3 b2 b1 b0) AND 0xFF = 0 \<longrightarrow>
        (of_bools b7 b6 b5 b4 b3 b2 b1 b0 :: uint16) = 0" for b7 b6 b5 b4 b3 b2 b1 b0
    by (cases b7; cases b6; cases b5; cases b4; cases b3; cases b2; cases b1; cases b0)
      (simp_all add: of_bools_simps table_of_def funpow8 crc_table_round_def)
  with low8_of_bools [OF assms(1)] assms(2) show ?thesis by metis
qed

lemma hi_mask_aux: "drop_bit 8 (c::uint16) AND mask 8 = drop_bit 8 c"
  by (rule bit_word_eqI) (auto simp add: bit_simps dest: bit_imp_le_length)

lemma hi_mask: "drop_bit 8 (c::uint16) AND 0xFF = drop_bit 8 c"
  using hi_mask_aux [of c] by (simp add: mask_eq_exp_minus_1)

lemma shl_mask_aux: "push_bit 8 (c::uint16) AND push_bit 8 (mask 8) = push_bit 8 c"
  by (rule bit_word_eqI) (auto simp add: bit_simps)

lemma shl_mask: "push_bit 8 (c::uint16) AND 0xFF00 = push_bit 8 c"
  using shl_mask_aux [of c] by (simp add: mask_eq_exp_minus_1)

lemma take8_hi: "take_bit 8 (drop_bit 8 (c::uint16)) = drop_bit 8 c"
  by (rule bit_word_eqI) (auto simp add: bit_simps dest: bit_imp_le_length)

lemma take8_ucast: "take_bit 8 (ucast (ch::byte) :: uint16) = ucast ch"
  by (rule bit_word_eqI) (auto simp add: bit_simps dest: bit_imp_le_length)

lemma table_nth:
  assumes "take_bit 8 (w::uint16) = w"
  shows "crcTable NewCRCCCITT ! unat w = table_of w"
proof -
  have "take_bit 8 (unat w) < 2 ^ 8"
    by (rule take_bit_nat_less_exp)
  then have "unat (take_bit 8 w) < 256"
    by (simp add: unsigned_take_bit_eq)
  with assms have "unat w < 256" by simp
  then show ?thesis
    by (simp add: NewCRCCCITT_def initCRCTable_def crc_table_value_eq)
qed

lemma step_alt:
  "calculate_step (crcTable NewCRCCCITT) c ch =
     push_bit 8 c XOR table_of (drop_bit 8 c XOR ucast ch)"
proof -
  have "take_bit 8 (drop_bit 8 c XOR ucast ch :: uint16) = drop_bit 8 c XOR ucast ch"
    by (simp only: take_bit_xor take8_hi take8_ucast)
  from table_nth [OF this] show ?thesis
    by (simp only: calculate_step_def Let_def hi_mask shl_mask)
qed

lemma xor_cancel_right: "((h::uint16) XOR u) XOR (h' XOR u) = h XOR h'"
  by (rule bit_word_eqI) (auto simp add: bit_xor_iff)

lemma xor_cancel_left: "((h::uint16) XOR u1) XOR (h XOR u2) = u1 XOR u2"
  by (rule bit_word_eqI) (auto simp add: bit_xor_iff)

lemma xor_zero_eq: "(a::'a::len word) XOR b = 0 \<Longrightarrow> a = b"
proof -
  assume "a XOR b = 0"
  then have "bit (a XOR b) n = bit (0::'a word) n" for n by simp
  then show ?thesis
    by (intro bit_word_eqI) (auto simp add: bit_xor_iff)
qed

lemma xor_same_left: "(a::uint16) XOR x = a XOR y \<Longrightarrow> x = y"
proof -
  assume "a XOR x = a XOR y"
  then have "bit (a XOR x) n = bit (a XOR y) n" for n by simp
  then show ?thesis
    by (intro bit_word_eqI) (auto simp add: bit_xor_iff)
qed

lemma xor_eq_swap: "(a::uint16) XOR x = b XOR y \<Longrightarrow> a XOR b = x XOR y"
proof -
  assume "a XOR x = b XOR y"
  then have "bit (a XOR x) n = bit (b XOR y) n" for n by simp
  then show ?thesis
    by (intro bit_word_eqI) (auto simp add: bit_xor_iff)
qed

lemma low_of_shl: "push_bit 8 (d::uint16) AND 0xFF = 0"
proof -
  have "push_bit 8 d AND mask 8 = 0"
    by (rule bit_word_eqI) (auto simp add: bit_simps)
  then show ?thesis by (simp add: mask_eq_exp_minus_1)
qed

lemma split16: "drop_bit 8 (d::uint16) = 0 \<Longrightarrow> push_bit 8 d = 0 \<Longrightarrow> d = 0"
proof (rule bit_word_eqI)
  fix n assume a: "drop_bit 8 d = 0" and b: "push_bit 8 d = 0" and n: "n < LENGTH(16)"
  show "bit d n = bit (0::uint16) n"
  proof (cases "n < 8")
    case True
    have "bit (push_bit 8 d) (n + 8) = bit d n" using True by (simp add: bit_simps)
    with b show ?thesis by simp
  next
    case False
    have "bit (drop_bit 8 d) (n - 8) = bit d n" using False by (simp add: bit_simps)
    with a show ?thesis by simp
  qed
qed

lemma step_inj_state:
  assumes "calculate_step (crcTable NewCRCCCITT) c1 ch = calculate_step (crcTable NewCRCCCITT) c2 ch"
  shows "c1 = c2"
proof -
  let ?u = "ucast ch :: uint16"
  from assms have "push_bit 8 c1 XOR push_bit 8 c2 =
      table_of (drop_bit 8 c1 XOR ?u) XOR table_of (drop_bit 8 c2 XOR ?u)"
    unfolding step_alt by (rule xor_eq_swap)
  also have "\<dots> = table_of ((drop_bit 8 c1 XOR ?u) XOR (drop_bit 8 c2 XOR ?u))"
    by (simp only: table_of_xor)
  also have "(drop_bit 8 c1 XOR ?u) XOR (drop_bit 8 c2 XOR ?u) = drop_bit 8 (c1 XOR c2)"
    by (simp only: xor_cancel_right drop_bit_xor)
  finally have eq: "push_bit 8 (c1 XOR c2) = table_of (drop_bit 8 (c1 XOR c2))"
    by (simp only: push_bit_xor)
  have "table_of (drop_bit 8 (c1 XOR c2)) AND 0xFF = 0"
    unfolding eq [symmetric] by (rule low_of_shl)
  from table_kernel [OF take8_hi this] have hi: "drop_bit 8 (c1 XOR c2) = 0" .
  with eq have "push_bit 8 (c1 XOR c2) = 0" by (simp only: table_of_0)
  from split16 [OF hi this] show ?thesis by (rule xor_zero_eq)
qed

lemma ucast_byte_inj: "(ucast (a::byte) :: uint16) = ucast (b::byte) \<Longrightarrow> a = b"
proof (rule bit_word_eqI)
  fix n assume e: "(ucast a :: uint16) = ucast b" and n: "n < LENGTH(8)"
  have "bit (ucast a :: uint16) n = bit a n" "bit (ucast b :: uint16) n = bit b n"
    using n by (simp_all add: bit_simps)
  with e show "bit a n = bit b n" by simp
qed

lemma step_inj_byte:
  assumes "calculate_step (crcTable NewCRCCCITT) c ch1 = calculate_step (crcTable NewCRCCCITT) c ch2"
  shows "ch1 = ch2"
proof -
  let ?u1 = "ucast ch1 :: uint16" and ?u2 = "ucast ch2 :: uint16"
  from assms have "table_of (drop_bit 8 c XOR ?u1) = table_of (drop_bit 8 c XOR ?u2)"
    unfolding step_alt by (rule xor_same_left)
  then have "table_of (drop_bit 8 c XOR ?u1) XOR table_of (drop_bit 8 c XOR ?u2) = 0"
    by simp
  then have "table_of ((drop_bit 8 c XOR ?u1) XOR (drop_bit 8 c XOR ?u2)) = 0"
    by (simp only: table_of_xor)
  moreover have "(drop_bit 8 c XOR ?u1) XOR (drop_bit 8 c XOR ?u2) = ?u1 XOR ?u2"
    by (rule xor_cancel_left)
  ultimately have "table_of (?u1 XOR ?u2) = 0" by simp
  then have z: "table_of (?u1 XOR ?u2) AND 0xFF = 0" by simp
  have "take_bit 8 (?u1 XOR ?u2) = ?u1 XOR ?u2"
    by (simp only: take_bit_xor take8_ucast)
  from table_kernel [OF this z] have "?u1 = ?u2" by (rule xor_zero_eq)
  then show ?thesis by (rule ucast_byte_inj)
qed

lemma foldl_step_inj:
  "foldl (calculate_step (crcTable NewCRCCCITT)) c1 xs =
   foldl (calculate_step (crcTable NewCRCCCITT)) c2 xs \<Longrightarrow> c1 = c2"
  by (induction xs arbitrary: c1 c2) (auto dest: step_inj_state)

lemma calculate_differs:
  assumes "x \<noteq> y"
  shows "calculate NewCRCCCITT (p @ x # s) \<noteq> calculate NewCRCCCITT (p @ y # s)"
proof
  assume "calculate NewCRCCCITT (p @ x # s) = calculate NewCRCCCITT (p @ y # s)"
  then have "calculate_step (crcTable NewCRCCCITT)
               (foldl (calculate_step (crcTable NewCRCCCITT)) (startingValue NewCRCCCITT) p) x =
             calculate_step (crcTable NewCRCCCITT)
               (foldl (calculate_step (crcTable NewCRCCCITT)) (startingValue NewCRCCCITT) p) y"
    by (simp add: calculate_def foldl_step_inj)
  with assms show False by (auto dest: step_inj_byte)
qed

lemma reverseByte_inj: "reverseByte a = reverseByte b \<Longrightarrow> a = b"
  by (metis reverseByte_involution)

lemma flip_changes_byte: "k < 8 \<Longrightarrow> (x::byte) XOR push_bit k 1 \<noteq> x"
proof
  assume k: "k < 8" and "x XOR push_bit k 1 = x"
  then have "bit (x XOR push_bit k 1) k = bit x k" by simp
  with k show False by (simp add: bit_xor_iff bit_exp_iff)
qed

lemma low_byte_aux: "(ucast ((r::uint16) AND mask 8) :: byte) = ucast r"
  by (rule bit_word_eqI) (auto simp add: bit_simps)

lemma low_byte: "(ucast ((r::uint16) AND 0xFF) :: byte) = ucast r"
  using low_byte_aux [of r] by (simp add: mask_eq_exp_minus_1)

lemma high_byte_aux: "drop_bit 8 ((r::uint16) AND push_bit 8 (mask 8)) = drop_bit 8 r"
  by (rule bit_word_eqI) (auto simp add: bit_simps dest: bit_imp_le_length)

lemma high_byte: "drop_bit 8 ((r::uint16) AND 0xFF00) = drop_bit 8 r"
  using high_byte_aux [of r] by (simp add: mask_eq_exp_minus_1)

lemma bytes_determine_word:
  assumes lo: "(ucast (r1::uint16) :: byte) = ucast (r2::uint16)"
    and hi: "(ucast (drop_bit 8 r1) :: byte) = ucast (drop_bit 8 r2)"
  shows "r1 = r2"
proof (rule bit_word_eqI)
  fix n assume n: "n < LENGTH(16)"
  show "bit r1 n = bit r2 n"
  proof (cases "n < 8")
    case True
    then have "bit (ucast r1 :: byte) n = bit r1 n" "bit (ucast r2 :: byte) n = bit r2 n"
      by (simp_all add: bit_simps)
    with lo show ?thesis by simp
  next
    case False
    with n have "n - 8 < 8" by simp
    with n False have "bit (ucast (drop_bit 8 r1) :: byte) (n - 8) = bit r1 n"
      "bit (ucast (drop_bit 8 r2) :: byte) (n - 8) = bit r2 n"
      by (simp_all add: bit_simps)
    with hi show ?thesis by simp
  qed
qed

lemma xor_ff_inj: "(a::byte) XOR 0xFF = b XOR 0xFF \<Longrightarrow> a = b"
proof -
  assume "a XOR 0xFF = b XOR 0xFF"
  then have "bit (a XOR 0xFF) n = bit (b XOR 0xFF) n" for n by simp
  then show ?thesis
    by (intro bit_word_eqI) (auto simp add: bit_xor_iff)
qed

lemma CalculateFor_inj:
  assumes "CalculateFor c d1 lsbFirst = CalculateFor c d2 lsbFirst"
  shows "calculate c (reverseByteMessage d1) = calculate c (reverseByteMessage d2)"
proof -
  let ?r1 = "calculate c (reverseByteMessage d1)" and ?r2 = "calculate c (reverseByteMessage d2)"
  from assms have
    lo: "reverseByte (ucast ?r1) XOR 0xFF = reverseByte (ucast ?r2) XOR 0xFF" and
    hi: "reverseByte (ucast (drop_bit 8 ?r1)) XOR 0xFF =
         reverseByte (ucast (drop_bit 8 ?r2)) XOR 0xFF"
    by (auto simp add: CalculateFor_def Let_def low_byte high_byte split: if_splits)
  from lo have "(ucast ?r1 :: byte) = ucast ?r2"
    by (rule xor_ff_inj [THEN reverseByte_inj])
  moreover from hi have "(ucast (drop_bit 8 ?r1) :: byte) = ucast (drop_bit 8 ?r2)"
    by (rule xor_ff_inj [THEN reverseByte_inj])
  ultimately show ?thesis by (rule bytes_determine_word)
qed

lemma checksum_matches_iff: "checksum_matches received calculated \<longleftrightarrow> received = calculated"
  unfolding checksum_matches_def list_all_iff list_eq_iff_nth_eq
  by (simp add: Ball_def)

lemma flipped_data_checksum_differs:
  assumes "i < length b" and "k < 8"
  shows "CalculateFor NewCRCCCITT (flip_bit_at b i k) lsbFirst \<noteq> CalculateFor NewCRCCCITT b lsbFirst"
proof
  assume "CalculateFor NewCRCCCITT (flip_bit_at b i k) lsbFirst = CalculateFor NewCRCCCITT b lsbFirst"
  then have e: "calculate NewCRCCCITT (reverseByteMessage (flip_bit_at b i k)) =
     calculate NewCRCCCITT (reverseByteMessage b)"
    by (rule CalculateFor_inj)
  from assms(1) have b: "b = take i b @ b ! i # drop (Suc i) b"
    by (rule id_take_nth_drop)
  from assms(1) have f: "flip_bit_at b i k = take i b @ (b ! i XOR push_bit k 1) # drop (Suc i) b"
    by (simp add: flip_bit_at_def upd_conv_take_nth_drop)
  have r1: "reverseByteMessage (flip_bit_at b i k) =
      map reverseByte (take i b) @ reverseByte (b ! i XOR push_bit k 1) # map reverseByte (drop (Suc i) b)"
    by (subst f) (simp add: reverseByteMessage_def)
  have r2: "reverseByteMessage b =
      map reverseByte (take i b) @ reverseByte (b ! i) # map reverseByte (drop (Suc i) b)"
    by (subst b) (simp add: reverseByteMessage_def)
  have "reverseByte (b ! i XOR push_bit k 1) \<noteq> reverseByte (b ! i)"
    using flip_changes_byte [OF assms(2), of "b ! i"] by (auto dest: reverseByte_inj)
  from calculate_differs [OF this] e show False
    unfolding r1 r2 by blast
qed

lemma flipped_checksum_differs:
  assumes "j < length crc" and "k < 8"
  shows "flip_bit_at crc j k \<noteq> crc"
proof
  assume "flip_bit_at crc j k = crc"
  then have "flip_bit_at crc j k ! j = crc ! j" by simp
  with assms(1) have "crc ! j XOR push_bit k 1 = crc ! j"
    by (simp add: flip_bit_at_def)
  with flip_changes_byte [OF assms(2)] show False by blast
qed

lemma length_CalculateFor: "length (CalculateFor c b lsbFirst) = 2"
  by (simp add: CalculateFor_def Let_def)

lemma startingValue_New: "startingValue NewCRCCCITT = 0xFFFF"
  by (simp add: NewCRCCCITT_def initCRCTable_def)

lemma CalculateFor_snrm:
  "CalculateFor NewCRCCCITT [0xA0, 0x07, 0x03, 0x21, 0x93] False = [0x0F, 0x01]"
  by (simp add: CalculateFor_def calculate_def reverseByteMessage_def step_alt
      startingValue_New Let_def reverseByte_def funpow8u reverseByte_round_def
      table_of_def funpow8 crc_table_round_def)

text \<open>
  Claim C6.  For every byte sequence \<open>b\<close> and either byte order, the two CRC bytes
  \<open>CalculateFor b\<close> pass the equality check of the call sites against the checksum
  calculated for \<open>b\<close>; after flipping any single bit of \<open>b\<close> the checksum calculated for
  the changed sequence no longer equals them; and after flipping any single bit of the two
  CRC bytes they no longer equal the checksum calculated for \<open>b\<close>.
\<close>

theorem crc_detects_single_bit_flips:
  "checksum_matches (CalculateFor NewCRCCCITT b lsbFirst) (CalculateFor NewCRCCCITT b lsbFirst)
   \<and> (i < length b \<and> k < 8 \<longrightarrow>
        \<not> checksum_matches (CalculateFor NewCRCCCITT b lsbFirst)
             (CalculateFor NewCRCCCITT (flip_bit_at b i k) lsbFirst))
   \<and> (j < 2 \<and> k < 8 \<longrightarrow>
        \<not> checksum_matches (flip_bit_at (CalculateFor NewCRCCCITT b lsbFirst) j k)
             (CalculateFor NewCRCCCITT b lsbFirst))"
  using flipped_data_checksum_differs [of i b k lsbFirst]
    flipped_checksum_differs [of j "CalculateFor NewCRCCCITT b lsbFirst" k]
  by (auto simp add: checksum_matches_iff length_CalculateFor)

theorem crc_detects_single_bit_flips_witness:
  "CalculateFor NewCRCCCITT [0xA0, 0x07, 0x03, 0x21, 0x93] False = [0x0F, 0x01]
   \<and> checksum_matches [0x0F, 0x01] (CalculateFor NewCRCCCITT [0xA0, 0x07, 0x03, 0x21, 0x93] False)
   \<and> \<not> checksum_matches [0x0F, 0x01]
         (CalculateFor NewCRCCCITT [0xA1, 0x07, 0x03, 0x21, 0x93] False)
   \<and> \<not> checksum_matches [0x0F, 0x00]
         (CalculateFor NewCRCCCITT [0xA0, 0x07, 0x03, 0x21, 0x93] False)"
  using crc_detects_single_bit_flips [of "[0xA0, 0x07, 0x03, 0x21, 0x93]" False 0 0 1]
    CalculateFor_snrm
  by (simp add: flip_bit_at_def)

section \<open>Properties of HDLC frame serialisation\<close>

text \<open>
  Claim C1, at the failing input.  \<open>ToBytes\<close> panics on every frame of each of the five
  types, so there is no byte sequence to parse: the promoted \<open>BaseHdlcFrame.ToBytes\<close>
  reaches \<open>BaseHdlcFrame.GetControlField\<close>, whose body is a panic, and never the
  \<open>GetControlField\<close> of the frame type, although that one is defined, as for the SNRM
  frame from the client 16 to the server 1.
\<close>

theorem HdlcFrame_ToBytes_panics:
  "HdlcFrame_ToBytes f =
     Inl (PanicMessage ''GetControlField must be implemented by specific frame type'')
   \<and> HdlcFrame_GetControlField
       (NewSetNormalResponseModeFrame
          \<lparr>LogicalAddress = 1, PhysicalAddress = None, AddressType = AddressTypeServer,
           ExtendedAddressing = False\<rparr>
          \<lparr>LogicalAddress = 16, PhysicalAddress = None, AddressType = AddressTypeClient,
           ExtendedAddressing = False\<rparr>) = Some SnrmControlField
   \<and> HdlcFrame_ToBytes
       (NewSetNormalResponseModeFrame
          \<lparr>LogicalAddress = 1, PhysicalAddress = None, AddressType = AddressTypeServer,
           ExtendedAddressing = False\<rparr>
          \<lparr>LogicalAddress = 16, PhysicalAddress = None, AddressType = AddressTypeClient,
           ExtendedAddressing = False\<rparr>) =
       Inl (PanicMessage ''GetControlField must be implemented by specific frame type'')"
  by (simp add: HdlcFrame_ToBytes_def BaseHdlcFrame_ToBytes_def BaseHdlcFrame_FrameContent_def
      BaseHdlcFrame_HeaderContent_def BaseHdlcFrame_GetControlField_def Let_def
      NewSetNormalResponseModeFrame_def)

end
